theory Spec2Isabelle
  imports Main
begin

section \<open>Exceptions, the hardware-management library and the data model\<close>

text \<open>
  Python exceptions that the code of \<open>main.py\<close> names or can meet. All of them are
  subclasses of \<open>Exception\<close>, so an \<open>except Exception\<close> clause catches each of them.
  \<open>NVMLError\<close> is the error class of the library; \<open>IndexError\<close> and
  \<open>ZeroDivisionError\<close> come from list indexing and from \<open>/\<close>.
\<close>

datatype exn =
    NVMLError string
  | UnicodeDecodeError string
  | AttributeError string
  | IndexError
  | ZeroDivisionError
  | OtherException string

fun str_exn :: "exn \<Rightarrow> string" where
  "str_exn (NVMLError m) = m"
| "str_exn (UnicodeDecodeError m) = m"
| "str_exn (AttributeError m) = m"
| "str_exn IndexError = ''list index out of range''"
| "str_exn ZeroDivisionError = ''division by zero''"
| "str_exn (OtherException m) = m"

type_synonym handle = nat

text \<open>
  \<open>nvmlDeviceGetName\<close> returns \<open>bytes\<close> or \<open>str\<close>, depending on the version of the
  binding; \<open>bytes\<close> has a \<open>decode\<close> method, \<open>str\<close> has none.
\<close>

datatype name_ret = NameBytes "nat list" | NameStr string

text \<open>
  The external library as the program sees it during one stretch of time (the
  constructor, or one tick): what each call returns or raises. \<open>decode_ignore\<close> is
  Python's \<open>bytes.decode("utf-8", errors="ignore")\<close>, which returns for every input.
  \<open>nvmlDeviceGetMemoryInfo\<close> gives the pair \<open>(used, total)\<close>.
\<close>

record nvml =
  nvmlInit :: "exn + unit"
  nvmlDeviceGetCount :: "exn + int"
  nvmlDeviceGetHandleByIndex :: "nat \<Rightarrow> exn + handle"
  nvmlDeviceGetName :: "handle \<Rightarrow> exn + name_ret"
  nvmlSystemGetDriverVersion :: "exn + string"
  nvmlDeviceGetUtilizationRates :: "handle \<Rightarrow> exn + int"
  nvmlDeviceGetMemoryInfo :: "handle \<Rightarrow> exn + int \<times> int"
  nvmlDeviceGetTemperature :: "handle \<Rightarrow> exn + int"
  decode_ignore :: "nat list \<Rightarrow> string"

text \<open>
  \<open>vram_used_percent\<close> is the integer \<open>0\<close> when VRAM is not polled and the float
  \<open>vramUsed / vramTotal * 100\<close> otherwise; the float is kept as the pair it is
  computed from.
\<close>

datatype pynum = PyInt int | PyFloatPercent int int

record gpu_entry =
  gpu_utilization :: int
  gpu_temperature :: int
  vram_total :: int
  vram_used :: int
  vram_used_percent :: pynum

record sample =
  device_type :: string
  sample_gpus :: "gpu_entry list"

record device =
  index :: nat
  name :: string

text \<open>The attributes of a \<open>GPUInfo\<close> object.\<close>

record gpuinfo =
  cuda :: bool
  pynvmlLoaded :: bool
  cudaDevicesFound :: int
  switchGPU :: bool
  switchVRAM :: bool
  switchTemperature :: bool
  gpus :: "device list"
  gpusUtilization :: "bool list"
  gpusVRAM :: "bool list"
  gpusTemperature :: "bool list"

text \<open>The class-level defaults (lines 15 to 24); the program builds one object from them.\<close>

definition GPUInfo_class :: gpuinfo where
  "GPUInfo_class =
     \<lparr>cuda = False, pynvmlLoaded = False, cudaDevicesFound = 0,
      switchGPU = True, switchVRAM = True, switchTemperature = True,
      gpus = [], gpusUtilization = [], gpusVRAM = [], gpusTemperature = []\<rparr>"

text \<open>
  What the program does to the outside, in order: a metric query sent to the library for
  a device index, a log record (format string and arguments), a printed line.
\<close>

datatype metric = Utilization | VRAM | Temperature

datatype level = Info | Warning | Error

datatype arg = AStr string | AInt int

datatype event =
    Query metric nat
  | Log level string "arg list"
  | Print string
  | PrintStatus sample

section \<open>The constructor\<close>

text \<open>Lines 41 to 52: the display name of one device.\<close>

definition read_name :: "nvml \<Rightarrow> handle \<Rightarrow> (exn + string) \<times> event list" where
  "read_name lib deviceHandle =
     (case nvmlDeviceGetName lib deviceHandle of
        Inr (NameBytes b) \<Rightarrow> (Inr (decode_ignore lib b), [])
      | Inr (NameStr s) \<Rightarrow> (Inr s, [])
      | Inl (UnicodeDecodeError m) \<Rightarrow>
          (Inr ''Unknown GPU (decoding error)'', [Print (''UnicodeDecodeError: '' @ m)])
      | Inl e \<Rightarrow> (Inl e, []))"

text \<open>Lines 39 to 66: the loop over the device indices.\<close>

fun enumerate_devices ::
  "nvml \<Rightarrow> nat list \<Rightarrow> gpuinfo \<Rightarrow> (exn + gpuinfo) \<times> event list" where
  "enumerate_devices lib [] self = (Inr self, [])"
| "enumerate_devices lib (deviceIndex # rest) self =
     (case nvmlDeviceGetHandleByIndex lib deviceIndex of
        Inl e \<Rightarrow> (Inl e, [])
      | Inr deviceHandle \<Rightarrow>
          (case read_name lib deviceHandle of
             (Inl e, ev) \<Rightarrow> (Inl e, ev)
           | (Inr gpuName, ev) \<Rightarrow>
               (case enumerate_devices lib rest
                       (self\<lparr>gpus := gpus self @ [\<lparr>index = deviceIndex, name = gpuName\<rparr>],
                             gpusUtilization := gpusUtilization self @ [True],
                             gpusVRAM := gpusVRAM self @ [True],
                             gpusTemperature := gpusTemperature self @ [True]\<rparr>) of
                  (r, ev') \<Rightarrow>
                    (r, ev @ [Log Info ''%s) %s'' [AInt (int deviceIndex), AStr gpuName]] @ ev'))))"

text \<open>Lines 26 to 71. An exception that leaves the constructor is the \<open>Inl\<close> result.\<close>

definition init :: "nvml \<Rightarrow> (exn + gpuinfo) \<times> event list" where
  "init lib =
     (case nvmlInit lib of
        Inl (NVMLError m) \<Rightarrow>
          (Inr (GPUInfo_class\<lparr>pynvmlLoaded := False\<rparr>),
           [Log Error ''Could not init pynvml. %s'' [AStr m],
            Log Warning ''No GPU with CUDA detected.'' []])
      | Inl e \<Rightarrow> (Inl e, [])
      | Inr _ \<Rightarrow>
          (case nvmlDeviceGetCount lib of
             Inl e \<Rightarrow> (Inl e, [])
           | Inr n \<Rightarrow>
               if n > 0 then
                 (case enumerate_devices lib [0..<nat n]
                         (GPUInfo_class\<lparr>pynvmlLoaded := True, cudaDevicesFound := n\<rparr>) of
                    (Inl e, ev) \<Rightarrow> (Inl e, Log Info ''GPU/s:'' [] # ev)
                  | (Inr self, ev) \<Rightarrow>
                      (case nvmlSystemGetDriverVersion lib of
                         Inl e \<Rightarrow> (Inl e, Log Info ''GPU/s:'' [] # ev)
                       | Inr v \<Rightarrow>
                           (Inr (self\<lparr>cuda := True\<rparr>),
                            Log Info ''GPU/s:'' [] # ev @ [Log Info ''NVIDIA Driver: %s'' [AStr v]])))
               else
                 (Inr (GPUInfo_class\<lparr>pynvmlLoaded := True\<rparr>),
                  [Log Warning ''No GPU with CUDA detected.'' []])))"

section \<open>getStatus\<close>

text \<open>
  Lines 95 to 108. The list is indexed only when \<open>switchGPU\<close> is true (\<open>and\<close> is
  short-circuit), and indexing past its end raises \<open>IndexError\<close>, outside the \<open>try\<close>.
\<close>

definition read_utilization ::
  "nvml \<Rightarrow> gpuinfo \<Rightarrow> nat \<Rightarrow> handle \<Rightarrow> (exn + int) \<times> gpuinfo \<times> event list" where
  "read_utilization lib self deviceIndex deviceHandle =
     (if \<not> switchGPU self then (Inr 0, self, [])
      else if length (gpusUtilization self) \<le> deviceIndex then (Inl IndexError, self, [])
      else if \<not> gpusUtilization self ! deviceIndex then (Inr 0, self, [])
      else
        (case nvmlDeviceGetUtilizationRates lib deviceHandle of
           Inr u \<Rightarrow> (Inr u, self, [Query Utilization deviceIndex])
         | Inl e \<Rightarrow>
             (Inr 0, self\<lparr>switchGPU := False\<rparr>,
              [Query Utilization deviceIndex,
               (if str_exn e = ''Unknown Error''
                then Log Error ''For some reason, pynvml is not working in a laptop with only battery, try to connect and turn on the monitor'' []
                else Log Error ''Could not get GPU utilization. %s'' [AStr (str_exn e)]),
               Log Error ''Monitor of GPU is turning off (not on UI!)'' []])))"

text \<open>Lines 111 to 116: no \<open>try\<close> here, and a true division.\<close>

definition read_vram ::
  "nvml \<Rightarrow> gpuinfo \<Rightarrow> nat \<Rightarrow> handle \<Rightarrow> (exn + int \<times> int \<times> pynum) \<times> event list" where
  "read_vram lib self deviceIndex deviceHandle =
     (if \<not> switchVRAM self then (Inr (0, 0, PyInt 0), [])
      else if length (gpusVRAM self) \<le> deviceIndex then (Inl IndexError, [])
      else if \<not> gpusVRAM self ! deviceIndex then (Inr (0, 0, PyInt 0), [])
      else
        (case nvmlDeviceGetMemoryInfo lib deviceHandle of
           Inl e \<Rightarrow> (Inl e, [Query VRAM deviceIndex])
         | Inr (vramUsed, vramTotal) \<Rightarrow>
             if vramTotal = 0 then (Inl ZeroDivisionError, [Query VRAM deviceIndex])
             else (Inr (vramUsed, vramTotal, PyFloatPercent vramUsed vramTotal),
                   [Query VRAM deviceIndex])))"

text \<open>Lines 119 to 129.\<close>

definition read_temperature ::
  "nvml \<Rightarrow> gpuinfo \<Rightarrow> nat \<Rightarrow> handle \<Rightarrow> (exn + int) \<times> gpuinfo \<times> event list" where
  "read_temperature lib self deviceIndex deviceHandle =
     (if \<not> switchTemperature self then (Inr 0, self, [])
      else if length (gpusTemperature self) \<le> deviceIndex then (Inl IndexError, self, [])
      else if \<not> gpusTemperature self ! deviceIndex then (Inr 0, self, [])
      else
        (case nvmlDeviceGetTemperature lib deviceHandle of
           Inr t \<Rightarrow> (Inr t, self, [Query Temperature deviceIndex])
         | Inl e \<Rightarrow>
             (Inr 0, self\<lparr>switchTemperature := False\<rparr>,
              [Query Temperature deviceIndex,
               Log Error ''Could not get GPU temperature. Turning off this feature. %s''
                 [AStr (str_exn e)]])))"

text \<open>Lines 85 to 139: the body of the loop, for one device index.\<close>

definition device_status ::
  "nvml \<Rightarrow> gpuinfo \<Rightarrow> nat \<Rightarrow> (exn + gpu_entry) \<times> gpuinfo \<times> event list" where
  "device_status lib self deviceIndex =
     (case nvmlDeviceGetHandleByIndex lib deviceIndex of
        Inl e \<Rightarrow> (Inl e, self, [])
      | Inr deviceHandle \<Rightarrow>
          (case read_utilization lib self deviceIndex deviceHandle of
             (Inl e, self1, ev1) \<Rightarrow> (Inl e, self1, ev1)
           | (Inr gpuUtilization, self1, ev1) \<Rightarrow>
               (case read_vram lib self1 deviceIndex deviceHandle of
                  (Inl e, ev2) \<Rightarrow> (Inl e, self1, ev1 @ ev2)
                | (Inr (vramUsed, vramTotal, vramPercent), ev2) \<Rightarrow>
                    (case read_temperature lib self1 deviceIndex deviceHandle of
                       (Inl e, self2, ev3) \<Rightarrow> (Inl e, self2, ev1 @ ev2 @ ev3)
                     | (Inr gpuTemperature, self2, ev3) \<Rightarrow>
                         (Inr \<lparr>gpu_utilization = gpuUtilization,
                               gpu_temperature = gpuTemperature,
                               vram_total = vramTotal,
                               vram_used = vramUsed,
                               vram_used_percent = vramPercent\<rparr>,
                          self2, ev1 @ ev2 @ ev3)))))"

text \<open>Line 84: the loop, with the local list \<open>gpus\<close> as accumulator.\<close>

fun getStatus_loop ::
  "nvml \<Rightarrow> nat list \<Rightarrow> gpuinfo \<Rightarrow> gpu_entry list \<Rightarrow>
   (exn + gpu_entry list) \<times> gpuinfo \<times> event list" where
  "getStatus_loop lib [] self acc = (Inr acc, self, [])"
| "getStatus_loop lib (deviceIndex # rest) self acc =
     (case device_status lib self deviceIndex of
        (Inl e, self1, ev) \<Rightarrow> (Inl e, self1, ev)
      | (Inr g, self1, ev) \<Rightarrow>
          (case getStatus_loop lib rest self1 (acc @ [g]) of
             (r, self2, ev') \<Rightarrow> (r, self2, ev @ ev')))"

text \<open>
  Lines 73 to 144. The result is the returned record or the exception that left the
  call, with the object as the call left it and the events of the call.
\<close>

definition getStatus :: "nvml \<Rightarrow> gpuinfo \<Rightarrow> (exn + sample) \<times> gpuinfo \<times> event list" where
  "getStatus lib self =
     (if pynvmlLoaded self \<and> cuda self then
        (case getStatus_loop lib [0..<nat (cudaDevicesFound self)] self [] of
           (Inl e, self1, ev) \<Rightarrow> (Inl e, self1, ev)
         | (Inr gs, self1, ev) \<Rightarrow> (Inr \<lparr>device_type = '''', sample_gpus = gs\<rparr>, self1, ev))
      else (Inr \<lparr>device_type = '''', sample_gpus = []\<rparr>, self, []))"

section \<open>The main program\<close>

text \<open>
  Lines 163 to 167. The loop runs one tick for each time it finds \<open>kill_now\<close> false; the
  list gives the library as it answers in each of those ticks. An exception that leaves
  \<open>getStatus\<close> ends the loop and the process.
\<close>

fun main_loop ::
  "nvml list \<Rightarrow> gpuinfo \<Rightarrow> sample list \<Rightarrow>
   exn option \<times> sample list \<times> gpuinfo \<times> event list" where
  "main_loop [] gpu_info results = (None, results, gpu_info, [])"
| "main_loop (lib # later) gpu_info results =
     (case getStatus lib gpu_info of
        (Inl e, gpu_info1, ev) \<Rightarrow> (Some e, results, gpu_info1, ev)
      | (Inr status, gpu_info1, ev) \<Rightarrow>
          (case main_loop later gpu_info1 (results @ [status]) of
             (r, results', gpu_info2, ev') \<Rightarrow>
               (r, results', gpu_info2, ev @ [PrintStatus status] @ ev')))"

text \<open>Lines 169 and 170: the one write of the program, with the arguments it is given.\<close>

record json_file =
  path :: string
  encoding :: string
  indent :: nat
  payload :: "sample list"

text \<open>Lines 158 to 170.\<close>

definition main :: "nvml \<Rightarrow> nvml list \<Rightarrow> exn option \<times> json_file option" where
  "main lib0 ticks =
     (case init lib0 of
        (Inl e, ev) \<Rightarrow> (Some e, None)
      | (Inr gpu_info, ev) \<Rightarrow>
          (case main_loop ticks gpu_info [] of
             (Some e, results, gpu_info', ev') \<Rightarrow> (Some e, None)
           | (None, results, gpu_info', ev') \<Rightarrow>
               (None, Some \<lparr>path = ''status.json'', encoding = ''utf-8'',
                             indent = 4, payload = results\<rparr>)))"

section \<open>Notions used by the properties\<close>

text \<open>
  How far a call may change the object: every attribute stays as it is, except that
  \<open>switchGPU\<close> and \<open>switchTemperature\<close> may go from true to false.
\<close>

definition descends :: "gpuinfo \<Rightarrow> gpuinfo \<Rightarrow> bool" where
  "descends self self' \<longleftrightarrow>
     cuda self' = cuda self \<and> pynvmlLoaded self' = pynvmlLoaded self \<and>
     cudaDevicesFound self' = cudaDevicesFound self \<and> gpus self' = gpus self \<and>
     gpusUtilization self' = gpusUtilization self \<and> gpusVRAM self' = gpusVRAM self \<and>
     gpusTemperature self' = gpusTemperature self \<and>
     switchVRAM self' = switchVRAM self \<and>
     (switchGPU self' \<longrightarrow> switchGPU self) \<and>
     (switchTemperature self' \<longrightarrow> switchTemperature self)"

text \<open>The switch, the field of an entry and the library call that belong to a metric.\<close>

fun switch_of :: "metric \<Rightarrow> gpuinfo \<Rightarrow> bool" where
  "switch_of Utilization self = switchGPU self"
| "switch_of VRAM self = switchVRAM self"
| "switch_of Temperature self = switchTemperature self"

fun entry_field :: "metric \<Rightarrow> gpu_entry \<Rightarrow> int" where
  "entry_field Utilization g = gpu_utilization g"
| "entry_field VRAM g = vram_used g"
| "entry_field Temperature g = gpu_temperature g"

fun lib_query :: "nvml \<Rightarrow> metric \<Rightarrow> handle \<Rightarrow> exn + int" where
  "lib_query lib Utilization h = nvmlDeviceGetUtilizationRates lib h"
| "lib_query lib VRAM h = map_sum id fst (nvmlDeviceGetMemoryInfo lib h)"
| "lib_query lib Temperature h = nvmlDeviceGetTemperature lib h"

text \<open>
  Fake libraries for concrete runs: two devices with handles 100 and 101, and variants
  in which one call fails.
\<close>

definition fake_ok :: nvml where
  "fake_ok =
     \<lparr>nvmlInit = Inr (), nvmlDeviceGetCount = Inr 2,
      nvmlDeviceGetHandleByIndex =
        (\<lambda>i. if i < 2 then Inr (100 + i) else Inl (NVMLError ''Invalid Argument'')),
      nvmlDeviceGetName =
        (\<lambda>h. if h = 100 then Inr (NameStr ''GPU A'') else Inr (NameBytes [71, 80, 85, 255])),
      nvmlSystemGetDriverVersion = Inr ''550.0'',
      nvmlDeviceGetUtilizationRates = (\<lambda>h. if h = 100 then Inr 30 else Inr 55),
      nvmlDeviceGetMemoryInfo = (\<lambda>h. if h = 100 then Inr (512, 2048) else Inr (1, 4)),
      nvmlDeviceGetTemperature = (\<lambda>h. Inr 60),
      decode_ignore = (\<lambda>b. map char_of (filter (\<lambda>n. n < 128) b))\<rparr>"

definition fake_util_fail0 :: nvml where
  "fake_util_fail0 =
     fake_ok\<lparr>nvmlDeviceGetUtilizationRates :=
       (\<lambda>h. if h = 100 then Inl (NVMLError ''Unknown Error'') else Inr 55)\<rparr>"

definition fake_temp_fail :: nvml where
  "fake_temp_fail =
     fake_ok\<lparr>nvmlDeviceGetTemperature := (\<lambda>h. Inl (NVMLError ''Not Supported''))\<rparr>"

definition two_gpus :: gpuinfo where
  "two_gpus =
     \<lparr>cuda = True, pynvmlLoaded = True, cudaDevicesFound = 2,
      switchGPU = True, switchVRAM = True, switchTemperature = True,
      gpus = [\<lparr>index = 0, name = ''GPU A''\<rparr>, \<lparr>index = 1, name = ''GPU''\<rparr>],
      gpusUtilization = [True, True], gpusVRAM = [True, True],
      gpusTemperature = [True, True]\<rparr>"

text \<open>No enable-flag is true after a call unless it was true before it.\<close>

definition flags_only_fall :: "gpuinfo \<Rightarrow> gpuinfo \<Rightarrow> bool" where
  "flags_only_fall old new \<longleftrightarrow>
     (switchGPU new \<longrightarrow> switchGPU old) \<and>
     (switchVRAM new \<longrightarrow> switchVRAM old) \<and>
     (switchTemperature new \<longrightarrow> switchTemperature old) \<and>
     list_all2 (\<lambda>a b. a \<longrightarrow> b) (gpusUtilization new) (gpusUtilization old) \<and>
     list_all2 (\<lambda>a b. a \<longrightarrow> b) (gpusVRAM new) (gpusVRAM old) \<and>
     list_all2 (\<lambda>a b. a \<longrightarrow> b) (gpusTemperature new) (gpusTemperature old)"

text \<open>What \<open>getStatus\<close> returns for \<open>fake_ok\<close> while every switch is on.\<close>

definition fake_ok_status :: sample where
  "fake_ok_status =
     \<lparr>device_type = '''',
      sample_gpus =
        [\<lparr>gpu_utilization = 30, gpu_temperature = 60, vram_total = 2048, vram_used = 512,
          vram_used_percent = PyFloatPercent 512 2048\<rparr>,
         \<lparr>gpu_utilization = 55, gpu_temperature = 60, vram_total = 4, vram_used = 1,
          vram_used_percent = PyFloatPercent 1 4\<rparr>]\<rparr>"

text \<open>The object as the constructor leaves it: every flag on, one entry per device.\<close>

definition enumerated :: "gpuinfo \<Rightarrow> bool" where
  "enumerated self \<longleftrightarrow>
     (let n = nat (cudaDevicesFound self) in
        switchGPU self \<and> switchVRAM self \<and> switchTemperature self \<and>
        map index (gpus self) = [0..<n] \<and>
        gpusUtilization self = replicate n True \<and>
        gpusVRAM self = replicate n True \<and>
        gpusTemperature self = replicate n True \<and>
        (cuda self \<longrightarrow> pynvmlLoaded self))"

definition empty_status :: sample where
  "empty_status = \<lparr>device_type = '''', sample_gpus = []\<rparr>"

text \<open>More fake libraries: no driver, and a name that cannot be decoded.\<close>

definition fake_no_init :: nvml where
  "fake_no_init = fake_ok\<lparr>nvmlInit := Inl (NVMLError ''Driver Not Loaded'')\<rparr>"

definition fake_bad_name :: nvml where
  "fake_bad_name =
     fake_ok\<lparr>nvmlDeviceGetName :=
       (\<lambda>h. if h = 100 then Inl (UnicodeDecodeError ''invalid start byte'')
            else Inr (NameBytes [71, 80, 85, 255]))\<rparr>"

text \<open>The per-device lists are long enough for the loop of \<open>getStatus\<close>.\<close>

definition lists_ok :: "gpuinfo \<Rightarrow> bool" where
  "lists_ok self \<longleftrightarrow>
     (let n = nat (cudaDevicesFound self) in
        n \<le> length (gpusUtilization self) \<and> n \<le> length (gpusVRAM self) \<and>
        n \<le> length (gpusTemperature self))"

text \<open>
  The library answers for device \<open>i\<close> where the code has no \<open>try\<close>: the handle lookup
  returns, and if VRAM is polled for the device, the memory query returns a nonzero total.
  Nothing is asked of the utilization and temperature queries.
\<close>

definition device_answers :: "nvml \<Rightarrow> gpuinfo \<Rightarrow> nat \<Rightarrow> bool" where
  "device_answers lib self i \<longleftrightarrow>
     (case nvmlDeviceGetHandleByIndex lib i of
        Inl e \<Rightarrow> False
      | Inr h \<Rightarrow>
          (switchVRAM self \<and> gpusVRAM self ! i \<longrightarrow>
             (case nvmlDeviceGetMemoryInfo lib h of
                Inl e \<Rightarrow> False
              | Inr (u, tot) \<Rightarrow> tot \<noteq> 0)))"

text \<open>
  Fake libraries in which the memory query raises, or reports a total of zero, for the
  second device, and one in which every utilization and temperature query raises.
\<close>

definition fake_vram_fail1 :: nvml where
  "fake_vram_fail1 =
     fake_ok\<lparr>nvmlDeviceGetMemoryInfo :=
       (\<lambda>h. if h = 101 then Inl (NVMLError ''GPU is lost'') else Inr (512, 2048))\<rparr>"

definition fake_zero_total1 :: nvml where
  "fake_zero_total1 =
     fake_ok\<lparr>nvmlDeviceGetMemoryInfo :=
       (\<lambda>h. if h = 101 then Inr (0, 0) else Inr (512, 2048))\<rparr>"

definition fake_both_fail :: nvml where
  "fake_both_fail =
     fake_ok\<lparr>nvmlDeviceGetUtilizationRates := (\<lambda>h. Inl (NVMLError ''Not Supported'')),
             nvmlDeviceGetTemperature := (\<lambda>h. Inl (OtherException ''boom''))\<rparr>"

text \<open>
  The scenario of the specification: two devices, and the utilization query raises for
  device 0 alone, in the third tick.
\<close>

definition scenario_ticks :: "nvml list" where
  "scenario_ticks = [fake_ok, fake_ok, fake_util_fail0, fake_ok]"

text \<open>The per-device list that belongs to a metric.\<close>

fun flags_of :: "metric \<Rightarrow> gpuinfo \<Rightarrow> bool list" where
  "flags_of Utilization self = gpusUtilization self"
| "flags_of VRAM self = gpusVRAM self"
| "flags_of Temperature self = gpusTemperature self"

text \<open>
  Two libraries that answer alike except, possibly, to the query of one metric: putting
  the second library's query of the metric into the first gives the second.
\<close>

definition same_but :: "metric \<Rightarrow> nvml \<Rightarrow> nvml \<Rightarrow> bool" where
  "same_but m a b \<longleftrightarrow>
     (case m of
        Utilization \<Rightarrow> a\<lparr>nvmlDeviceGetUtilizationRates := nvmlDeviceGetUtilizationRates b\<rparr> = b
      | VRAM \<Rightarrow> a\<lparr>nvmlDeviceGetMemoryInfo := nvmlDeviceGetMemoryInfo b\<rparr> = b
      | Temperature \<Rightarrow> a\<lparr>nvmlDeviceGetTemperature := nvmlDeviceGetTemperature b\<rparr> = b)"

text \<open>Fake libraries that report other figures than \<open>fake_ok\<close> for one metric.\<close>

definition fake_other_util :: nvml where
  "fake_other_util = fake_ok\<lparr>nvmlDeviceGetUtilizationRates := (\<lambda>h. Inr 99)\<rparr>"

definition fake_other_temp :: nvml where
  "fake_other_temp = fake_ok\<lparr>nvmlDeviceGetTemperature := (\<lambda>h. Inr 95)\<rparr>"

section \<open>What a call preserves\<close>

lemma descends_refl: "descends s s"
  by (simp add: descends_def)

lemma descends_trans: "descends a b \<Longrightarrow> descends b c \<Longrightarrow> descends a c"
  by (simp add: descends_def)

lemma read_utilization_descends:
  "read_utilization lib self i h = (r, self', ev) \<Longrightarrow> descends self self'"
  by (auto simp: read_utilization_def descends_def split: if_splits sum.splits)

lemma read_temperature_descends:
  "read_temperature lib self i h = (r, self', ev) \<Longrightarrow> descends self self'"
  by (auto simp: read_temperature_def descends_def split: if_splits sum.splits)

lemma device_status_descends:
  "device_status lib self i = (r, self', ev) \<Longrightarrow> descends self self'"
  unfolding device_status_def
  by (auto split: sum.splits prod.splits
      dest!: read_utilization_descends read_temperature_descends
      intro: descends_refl descends_trans)

lemma getStatus_loop_descends:
  "getStatus_loop lib is self acc = (r, self', ev) \<Longrightarrow> descends self self'"
proof (induction "is" arbitrary: self acc r self' ev)
  case Nil
  then show ?case by (simp add: descends_refl)
next
  case (Cons i "is")
  then show ?case
    by (auto split: sum.splits prod.splits dest!: device_status_descends
        intro: descends_trans)
qed

lemma getStatus_descends:
  "getStatus lib self = (r, self', ev) \<Longrightarrow> descends self self'"
  unfolding getStatus_def
  by (auto split: if_splits sum.splits prod.splits dest!: getStatus_loop_descends
      intro: descends_refl)

lemma main_loop_descends:
  "main_loop ticks self acc = (r, results, self', ev) \<Longrightarrow> descends self self'"
proof (induction ticks arbitrary: self acc r results self' ev)
  case Nil
  then show ?case by (simp add: descends_refl)
next
  case (Cons lib ticks)
  then show ?case
    by (auto split: sum.splits prod.splits dest!: getStatus_descends
        intro: descends_trans)
qed

section \<open>A metric that is switched off\<close>

lemma descends_switch: "descends s s' \<Longrightarrow> \<not> switch_of m s \<Longrightarrow> \<not> switch_of m s'"
  by (cases m) (auto simp: descends_def)

lemma read_utilization_query:
  "read_utilization lib self i h = (r, self', ev) \<Longrightarrow> Query m j \<in> set ev \<Longrightarrow>
   m = Utilization \<and> j = i \<and> switchGPU self"
  by (auto simp: read_utilization_def split: if_splits sum.splits)

lemma read_vram_query:
  "read_vram lib self i h = (r, ev) \<Longrightarrow> Query m j \<in> set ev \<Longrightarrow>
   m = VRAM \<and> j = i \<and> switchVRAM self"
  by (auto simp: read_vram_def split: if_splits sum.splits prod.splits)

lemma read_temperature_query:
  "read_temperature lib self i h = (r, self', ev) \<Longrightarrow> Query m j \<in> set ev \<Longrightarrow>
   m = Temperature \<and> j = i \<and> switchTemperature self"
  by (auto simp: read_temperature_def split: if_splits sum.splits)

lemma read_utilization_off:
  "\<not> switchGPU self \<Longrightarrow> read_utilization lib self i h = (Inr 0, self, [])"
  by (simp add: read_utilization_def)

lemma read_vram_off:
  "\<not> switchVRAM self \<Longrightarrow> read_vram lib self i h = (Inr (0, 0, PyInt 0), [])"
  by (simp add: read_vram_def)

lemma read_temperature_off:
  "\<not> switchTemperature self \<Longrightarrow> read_temperature lib self i h = (Inr 0, self, [])"
  by (simp add: read_temperature_def)

text \<open>The body of the loop, split into the steps it takes.\<close>

lemma device_status_Inr:
  assumes "device_status lib self i = (Inr g, self', ev)"
  obtains h self1 ev1 ev2 ev3 where
    "nvmlDeviceGetHandleByIndex lib i = Inr h"
    "read_utilization lib self i h = (Inr (gpu_utilization g), self1, ev1)"
    "read_vram lib self1 i h = (Inr (vram_used g, vram_total g, vram_used_percent g), ev2)"
    "read_temperature lib self1 i h = (Inr (gpu_temperature g), self', ev3)"
    "ev = ev1 @ ev2 @ ev3"
  using assms unfolding device_status_def
  by (auto split: sum.splits prod.splits)

lemma device_status_query:
  assumes "device_status lib self i = (r, self', ev)" and "Query m j \<in> set ev"
  shows "j = i \<and> switch_of m self"
proof -
  from assms obtain h where h: "nvmlDeviceGetHandleByIndex lib i = Inr h"
    unfolding device_status_def by (auto split: sum.splits)
  obtain r1 s1 e1 where u: "read_utilization lib self i h = (r1, s1, e1)"
    by (cases "read_utilization lib self i h") auto
  have d1: "descends self s1" using read_utilization_descends [OF u] .
  obtain r2 e2 where v: "read_vram lib s1 i h = (r2, e2)"
    by (cases "read_vram lib s1 i h") auto
  obtain r3 s3 e3 where t: "read_temperature lib s1 i h = (r3, s3, e3)"
    by (cases "read_temperature lib s1 i h") auto
  from assms h u v t have "Query m j \<in> set e1 \<or> Query m j \<in> set e2 \<or> Query m j \<in> set e3"
    unfolding device_status_def by (auto split: sum.splits prod.splits)
  then show ?thesis
  proof (elim disjE)
    assume "Query m j \<in> set e1"
    from read_utilization_query [OF u this] show ?thesis by simp
  next
    assume "Query m j \<in> set e2"
    from read_vram_query [OF v this] d1 show ?thesis by (simp add: descends_def)
  next
    assume "Query m j \<in> set e3"
    from read_temperature_query [OF t this] d1 show ?thesis by (auto simp: descends_def)
  qed
qed

lemma device_status_zero:
  assumes "\<not> switch_of m self" and "device_status lib self i = (Inr g, self', ev)"
  shows "entry_field m g = 0"
proof -
  from assms(2) obtain h self1 ev1 ev2 ev3 where
    u: "read_utilization lib self i h = (Inr (gpu_utilization g), self1, ev1)" and
    v: "read_vram lib self1 i h = (Inr (vram_used g, vram_total g, vram_used_percent g), ev2)" and
    t: "read_temperature lib self1 i h = (Inr (gpu_temperature g), self', ev3)"
    by (rule device_status_Inr)
  have off1: "\<not> switch_of m self1"
    using descends_switch [OF read_utilization_descends [OF u] assms(1)] .
  show ?thesis
  proof (cases m)
    case Utilization
    with assms(1) u show ?thesis by (simp add: read_utilization_off)
  next
    case VRAM
    with off1 v show ?thesis by (simp add: read_vram_off)
  next
    case Temperature
    with off1 t show ?thesis by (simp add: read_temperature_off)
  qed
qed

lemma device_status_off:
  assumes "\<not> switch_of m self" and "device_status lib self i = (r, self', ev)"
  shows "Query m j \<notin> set ev \<and> (\<forall>g. r = Inr g \<longrightarrow> entry_field m g = 0)"
  using assms device_status_query device_status_zero by blast

lemma getStatus_loop_off:
  assumes "\<not> switch_of m self" and "getStatus_loop lib is self acc = (r, self', ev)"
  shows "Query m j \<notin> set ev \<and>
         (\<forall>gs. r = Inr gs \<longrightarrow> (\<exists>new. gs = acc @ new \<and> (\<forall>g\<in>set new. entry_field m g = 0)))"
  using assms
proof (induction "is" arbitrary: self acc r self' ev)
  case Nil
  then show ?case by auto
next
  case (Cons i "is")
  obtain r1 s1 e1 where d: "device_status lib self i = (r1, s1, e1)"
    by (cases "device_status lib self i") auto
  from device_status_off [OF Cons.prems(1) d]
  have q1: "Query m j \<notin> set e1" and z1: "\<forall>g. r1 = Inr g \<longrightarrow> entry_field m g = 0"
    by auto
  show ?case
  proof (cases r1)
    case (Inl e)
    with Cons.prems(2) d q1 show ?thesis by auto
  next
    case (Inr g)
    obtain r2 s2 e2 where l: "getStatus_loop lib is s1 (acc @ [g]) = (r2, s2, e2)"
      by (cases "getStatus_loop lib is s1 (acc @ [g])") auto
    have off1: "\<not> switch_of m s1"
      using descends_switch [OF device_status_descends [OF d] Cons.prems(1)] .
    from Cons.IH [OF off1 l]
    have q2: "Query m j \<notin> set e2"
      and z2: "\<forall>gs. r2 = Inr gs \<longrightarrow> (\<exists>new. gs = (acc @ [g]) @ new \<and> (\<forall>g\<in>set new. entry_field m g = 0))"
      by auto
    from Cons.prems(2) d Inr l have res: "r = r2" "ev = e1 @ e2" by auto
    have "\<forall>gs. r = Inr gs \<longrightarrow> (\<exists>new. gs = acc @ new \<and> (\<forall>g\<in>set new. entry_field m g = 0))"
    proof (intro allI impI)
      fix gs assume "r = Inr gs"
      with res z2 obtain new where n: "gs = (acc @ [g]) @ new" "\<forall>g\<in>set new. entry_field m g = 0"
        by blast
      from z1 Inr have "entry_field m g = 0" by simp
      with n show "\<exists>new. gs = acc @ new \<and> (\<forall>g\<in>set new. entry_field m g = 0)"
        by (intro exI [of _ "g # new"]) simp
    qed
    with q1 q2 res show ?thesis by simp
  qed
qed

lemma getStatus_off:
  assumes "\<not> switch_of m self" and "getStatus lib self = (r, self', ev)"
  shows "Query m j \<notin> set ev \<and>
         (\<forall>s. r = Inr s \<longrightarrow> (\<forall>g\<in>set (sample_gpus s). entry_field m g = 0))"
proof (cases "pynvmlLoaded self \<and> cuda self")
  case False
  with assms(2) show ?thesis by (auto simp: getStatus_def)
next
  case True
  obtain r1 s1 e1 where l: "getStatus_loop lib [0..<nat (cudaDevicesFound self)] self [] = (r1, s1, e1)"
    by (cases "getStatus_loop lib [0..<nat (cudaDevicesFound self)] self []") auto
  from getStatus_loop_off [OF assms(1) l, of j] True assms(2) l show ?thesis
    by (auto simp: getStatus_def split: sum.splits)
qed

lemma main_loop_off:
  assumes "\<not> switch_of m self" and "main_loop ticks self acc = (r, results, self', ev)"
  shows "Query m j \<notin> set ev \<and>
         (\<exists>new. results = acc @ new \<and>
            (\<forall>s\<in>set new. \<forall>g\<in>set (sample_gpus s). entry_field m g = 0))"
  using assms
proof (induction ticks arbitrary: self acc r results self' ev)
  case Nil
  then show ?case by auto
next
  case (Cons lib ticks)
  obtain r1 s1 e1 where d: "getStatus lib self = (r1, s1, e1)"
    by (cases "getStatus lib self") auto
  from getStatus_off [OF Cons.prems(1) d]
  have q1: "Query m j \<notin> set e1"
    and z1: "\<forall>s. r1 = Inr s \<longrightarrow> (\<forall>g\<in>set (sample_gpus s). entry_field m g = 0)"
    by auto
  show ?case
  proof (cases r1)
    case (Inl e)
    with Cons.prems(2) d q1 show ?thesis by auto
  next
    case (Inr status)
    obtain r2 res2 s2 e2 where l: "main_loop ticks s1 (acc @ [status]) = (r2, res2, s2, e2)"
      by (cases "main_loop ticks s1 (acc @ [status])") auto
    have off1: "\<not> switch_of m s1"
      using descends_switch [OF getStatus_descends [OF d] Cons.prems(1)] .
    from Cons.IH [OF off1 l] obtain new where
      q2: "Query m j \<notin> set e2" and
      n: "res2 = (acc @ [status]) @ new" "\<forall>s\<in>set new. \<forall>g\<in>set (sample_gpus s). entry_field m g = 0"
      by blast
    from Cons.prems(2) d Inr l have res: "results = res2" "ev = e1 @ [PrintStatus status] @ e2"
      by auto
    from z1 Inr have "\<forall>g\<in>set (sample_gpus status). entry_field m g = 0" by simp
    with n res have "results = acc @ (status # new) \<and>
        (\<forall>s\<in>set (status # new). \<forall>g\<in>set (sample_gpus s). entry_field m g = 0)"
      by simp
    then have "\<exists>new. results = acc @ new \<and>
        (\<forall>s\<in>set new. \<forall>g\<in>set (sample_gpus s). entry_field m g = 0)" by blast
    moreover from q1 q2 res have "Query m j \<notin> set ev" by simp
    ultimately show ?thesis by simp
  qed
qed

text \<open>A query that fails turns its switch off.\<close>

lemma read_utilization_fail:
  "read_utilization lib self i h = (r, self', ev) \<Longrightarrow> Query m j \<in> set ev \<Longrightarrow>
   nvmlDeviceGetUtilizationRates lib h = Inl e \<Longrightarrow> \<not> switchGPU self'"
  by (auto simp: read_utilization_def split: if_splits sum.splits)

lemma read_temperature_fail:
  "read_temperature lib self i h = (r, self', ev) \<Longrightarrow> Query m j \<in> set ev \<Longrightarrow>
   nvmlDeviceGetTemperature lib h = Inl e \<Longrightarrow> \<not> switchTemperature self'"
  by (auto simp: read_temperature_def split: if_splits sum.splits)

lemma device_status_fail:
  assumes "device_status lib self i = (r, self', ev)" and "Query m j \<in> set ev"
    and "m \<noteq> VRAM"
    and "nvmlDeviceGetHandleByIndex lib j = Inr h" and "lib_query lib m h = Inl e"
  shows "\<not> switch_of m self'"
proof -
  from device_status_query [OF assms(1,2)] have ji: "j = i" by simp
  with assms(4) have h: "nvmlDeviceGetHandleByIndex lib i = Inr h" by simp
  obtain r1 s1 e1 where u: "read_utilization lib self i h = (r1, s1, e1)"
    by (cases "read_utilization lib self i h") auto
  obtain r2 e2 where v: "read_vram lib s1 i h = (r2, e2)"
    by (cases "read_vram lib s1 i h") auto
  obtain r3 s3 e3 where t: "read_temperature lib s1 i h = (r3, s3, e3)"
    by (cases "read_temperature lib s1 i h") auto
  from assms(1) h u v t have s': "self' = s1 \<or> self' = s3"
    unfolding device_status_def by (auto split: sum.splits prod.splits)
  have d3: "descends s1 s3" using read_temperature_descends [OF t] .
  from assms(1,2) h u v t
  have where_q: "Query m j \<in> set e1 \<or> Query m j \<in> set e2 \<or> (Query m j \<in> set e3 \<and> self' = s3)"
    unfolding device_status_def by (auto split: sum.splits prod.splits)
  show ?thesis
  proof (cases m)
    case Utilization
    with where_q read_vram_query [OF v] read_temperature_query [OF t]
    have "Query m j \<in> set e1" by blast
    from read_utilization_fail [OF u this] assms(5) Utilization have "\<not> switchGPU s1" by simp
    with s' d3 Utilization show ?thesis by (auto simp: descends_def)
  next
    case VRAM
    with assms(3) show ?thesis by simp
  next
    case Temperature
    with where_q read_vram_query [OF v] read_utilization_query [OF u]
    have "Query m j \<in> set e3 \<and> self' = s3" by blast
    with read_temperature_fail [OF t] assms(5) Temperature show ?thesis by auto
  qed
qed

lemma descends_flags: "descends old new \<Longrightarrow> flags_only_fall old new"
  by (simp add: descends_def flags_only_fall_def list_all2_same)

section \<open>Positions: which device an entry and which tick a record belongs to\<close>

lemma getStatus_loop_append:
  "getStatus_loop lib (xs @ ys) self acc =
     (case getStatus_loop lib xs self acc of
        (Inl e, s, ev) \<Rightarrow> (Inl e, s, ev)
      | (Inr gs, s, ev) \<Rightarrow>
          (case getStatus_loop lib ys s gs of (r, s', ev') \<Rightarrow> (r, s', ev @ ev')))"
  by (induction xs arbitrary: self acc) (auto split: sum.splits prod.splits)

text \<open>Entry \<open>k\<close> of the new part of the list comes from the \<open>k\<close>-th index of the loop.\<close>

lemma getStatus_loop_entries:
  assumes "getStatus_loop lib is self acc = (Inr gs, self', ev)"
  shows "length gs = length acc + length is \<and> take (length acc) gs = acc \<and>
         (\<forall>k<length is. \<exists>s s' e. descends self s \<and>
            device_status lib s (is ! k) = (Inr (gs ! (length acc + k)), s', e))"
  using assms
proof (induction "is" arbitrary: self acc ev self')
  case Nil
  then show ?case by auto
next
  case (Cons i "is")
  obtain r1 s1 e1 where d: "device_status lib self i = (r1, s1, e1)"
    by (cases "device_status lib self i") auto
  with Cons.prems obtain g where g: "r1 = Inr g"
    by (cases r1) auto
  obtain r2 s2 e2 where l: "getStatus_loop lib is s1 (acc @ [g]) = (r2, s2, e2)"
    by (cases "getStatus_loop lib is s1 (acc @ [g])") auto
  with Cons.prems d g have r2: "r2 = Inr gs" by auto
  from Cons.IH [OF l [unfolded r2]]
  have len: "length gs = length (acc @ [g]) + length is"
    and tk: "take (length (acc @ [g])) gs = acc @ [g]"
    and ent: "\<forall>k<length is. \<exists>s s' e. descends s1 s \<and>
            device_status lib s (is ! k) = (Inr (gs ! (length (acc @ [g]) + k)), s', e)"
    by auto
  have d1: "descends self s1" using device_status_descends [OF d] .
  from tk have tk': "take (length acc) gs = acc"
    by (metis append_eq_conv_conj append.assoc append_take_drop_id)
  from tk len have g0: "gs ! length acc = g"
    by (metis append_take_drop_id length_append_singleton lessI nth_append nth_append_length)
  have "\<forall>k<length (i # is). \<exists>s s' e. descends self s \<and>
            device_status lib s ((i # is) ! k) = (Inr (gs ! (length acc + k)), s', e)"
  proof (intro allI impI)
    fix k assume k: "k < length (i # is)"
    show "\<exists>s s' e. descends self s \<and>
            device_status lib s ((i # is) ! k) = (Inr (gs ! (length acc + k)), s', e)"
    proof (cases k)
      case 0
      with d g g0 show ?thesis using descends_refl by auto
    next
      case (Suc k')
      with k ent obtain s s' e where "descends s1 s"
        "device_status lib s (is ! k') = (Inr (gs ! (length (acc @ [g]) + k')), s', e)"
        by auto
      with Suc d1 show ?thesis using descends_trans by auto
    qed
  qed
  with len tk' show ?case by simp
qed

lemma getStatus_entries:
  assumes "getStatus lib self = (Inr status, self', ev)" and "pynvmlLoaded self" and "cuda self"
  shows "length (sample_gpus status) = nat (cudaDevicesFound self) \<and>
         (\<forall>k<nat (cudaDevicesFound self). \<exists>s s' e. descends self s \<and>
            device_status lib s k = (Inr (sample_gpus status ! k), s', e))"
proof -
  from assms obtain gs where
    l: "getStatus_loop lib [0..<nat (cudaDevicesFound self)] self [] = (Inr gs, self', ev)"
    and s: "sample_gpus status = gs"
    by (auto simp: getStatus_def split: sum.splits prod.splits)
  from getStatus_loop_entries [OF l] s show ?thesis by simp
qed

lemma main_loop_results:
  assumes "main_loop ticks self acc = (r, results, self', ev)"
  shows "length acc \<le> length results \<and> length results \<le> length acc + length ticks \<and>
         take (length acc) results = acc \<and>
         (r = None \<longrightarrow> length results = length acc + length ticks)"
  using assms
proof (induction ticks arbitrary: self acc r results self' ev)
  case Nil
  then show ?case by auto
next
  case (Cons lib ticks)
  obtain r1 s1 e1 where d: "getStatus lib self = (r1, s1, e1)"
    by (cases "getStatus lib self") auto
  show ?case
  proof (cases r1)
    case (Inl e)
    with Cons.prems d show ?thesis by auto
  next
    case (Inr status)
    obtain r2 res2 s2 e2 where l: "main_loop ticks s1 (acc @ [status]) = (r2, res2, s2, e2)"
      by (cases "main_loop ticks s1 (acc @ [status])") auto
    with Cons.prems d Inr have eq: "r = r2" "results = res2" by auto
    from Cons.IH [OF l] eq
    have a: "length (acc @ [status]) \<le> length results"
      and b: "length results \<le> length (acc @ [status]) + length ticks"
      and c: "take (length (acc @ [status])) results = acc @ [status]"
      and e: "r = None \<longrightarrow> length results = length (acc @ [status]) + length ticks"
      by auto
    from c have "take (length acc) results = acc"
      by (metis append_eq_conv_conj append.assoc append_take_drop_id)
    with a b e show ?thesis by simp
  qed
qed

text \<open>
  The record at position \<open>t\<close> of the new part of the history is the one that tick \<open>t\<close>
  returned, from the object as the first \<open>t\<close> ticks left it.
\<close>

lemma main_loop_tick:
  assumes "main_loop ticks self acc = (r, results, self', ev)"
    and "length acc + t < length results"
  shows "\<exists>s e1 s1 e2.
           main_loop (take t ticks) self acc = (None, take (length acc + t) results, s, e1) \<and>
           getStatus (ticks ! t) s = (Inr (results ! (length acc + t)), s1, e2)"
  using assms
proof (induction ticks arbitrary: self acc t ev self')
  case Nil
  then show ?case by auto
next
  case (Cons lib ticks)
  obtain r1 s1 e1 where d: "getStatus lib self = (r1, s1, e1)"
    by (cases "getStatus lib self") auto
  show ?case
  proof (cases r1)
    case (Inl e)
    with Cons.prems d show ?thesis by auto
  next
    case (Inr status)
    obtain r2 res2 s2 e2 where l: "main_loop ticks s1 (acc @ [status]) = (r2, res2, s2, e2)"
      by (cases "main_loop ticks s1 (acc @ [status])") auto
    with Cons.prems d Inr have eq: "r = r2" "results = res2" by auto
    from main_loop_results [OF l] eq
    have c: "take (length (acc @ [status])) results = acc @ [status]"
      and a: "length (acc @ [status]) \<le> length results" by auto
    from c have tk: "take (length acc) results = acc"
      by (metis append_eq_conv_conj append.assoc append_take_drop_id)
    from c a have r0: "results ! length acc = status"
      by (metis append_take_drop_id length_append_singleton lessI nth_append nth_append_length)
    show ?thesis
    proof (cases t)
      case 0
      with d Inr tk r0 show ?thesis by auto
    next
      case (Suc t')
      with Cons.prems(2) have "length (acc @ [status]) + t' < length results" by simp
      from Cons.IH [OF l [unfolded eq(1) [symmetric] eq(2) [symmetric]] this]
      obtain s e1' s1' e2' where
        "main_loop (take t' ticks) s1 (acc @ [status]) =
           (None, take (length (acc @ [status]) + t') results, s, e1')"
        "getStatus (ticks ! t') s = (Inr (results ! (length (acc @ [status]) + t')), s1', e2')"
        by blast
      with Suc d Inr show ?thesis by auto
    qed
  qed
qed

section \<open>The constructor's result\<close>

lemma read_name_cases:
  "nvmlDeviceGetName lib h = Inl (UnicodeDecodeError m) \<Longrightarrow>
     read_name lib h = (Inr ''Unknown GPU (decoding error)'', [Print (''UnicodeDecodeError: '' @ m)])"
  "nvmlDeviceGetName lib h = Inr (NameBytes b) \<Longrightarrow> read_name lib h = (Inr (decode_ignore lib b), [])"
  "nvmlDeviceGetName lib h = Inr (NameStr s) \<Longrightarrow> read_name lib h = (Inr s, [])"
  by (simp_all add: read_name_def)

lemma read_name_returns:
  assumes "(\<exists>x. nvmlDeviceGetName lib h = Inr x) \<or> (\<exists>m. nvmlDeviceGetName lib h = Inl (UnicodeDecodeError m))"
  shows "\<exists>nm e. read_name lib h = (Inr nm, e)"
proof -
  from assms consider b where "nvmlDeviceGetName lib h = Inr (NameBytes b)"
    | s where "nvmlDeviceGetName lib h = Inr (NameStr s)"
    | m where "nvmlDeviceGetName lib h = Inl (UnicodeDecodeError m)"
    by (metis name_ret.exhaust)
  then show ?thesis by cases (auto simp: read_name_cases)
qed

lemma enumerate_devices_shape:
  assumes "enumerate_devices lib is self = (Inr self', ev)"
  shows "map index (gpus self') = map index (gpus self) @ is \<and>
         gpusUtilization self' = gpusUtilization self @ replicate (length is) True \<and>
         gpusVRAM self' = gpusVRAM self @ replicate (length is) True \<and>
         gpusTemperature self' = gpusTemperature self @ replicate (length is) True \<and>
         cuda self' = cuda self \<and> pynvmlLoaded self' = pynvmlLoaded self \<and>
         cudaDevicesFound self' = cudaDevicesFound self \<and>
         switchGPU self' = switchGPU self \<and> switchVRAM self' = switchVRAM self \<and>
         switchTemperature self' = switchTemperature self"
  using assms
proof (induction "is" arbitrary: self ev)
  case Nil
  then show ?case by auto
next
  case (Cons i "is")
  from Cons.prems obtain h where h: "nvmlDeviceGetHandleByIndex lib i = Inr h"
    by (auto split: sum.splits)
  from Cons.prems h obtain nm e1 where n: "read_name lib h = (Inr nm, e1)"
    by (auto split: sum.splits prod.splits)
  let ?s = "self\<lparr>gpus := gpus self @ [\<lparr>index = i, name = nm\<rparr>],
                 gpusUtilization := gpusUtilization self @ [True],
                 gpusVRAM := gpusVRAM self @ [True],
                 gpusTemperature := gpusTemperature self @ [True]\<rparr>"
  from Cons.prems h n obtain e2 where "enumerate_devices lib is ?s = (Inr self', e2)"
    by (auto split: prod.splits)
  from Cons.IH [OF this] show ?case
    by (simp add: replicate_app_Cons_same)
qed

lemma enumerate_devices_names:
  assumes "enumerate_devices lib is self = (Inr self', ev)"
  shows "\<exists>new. gpus self' = gpus self @ new \<and> length new = length is \<and>
           (\<forall>k<length is. \<exists>h nm e. nvmlDeviceGetHandleByIndex lib (is ! k) = Inr h \<and>
              read_name lib h = (Inr nm, e) \<and> new ! k = \<lparr>index = is ! k, name = nm\<rparr>)"
  using assms
proof (induction "is" arbitrary: self ev)
  case Nil
  then show ?case by auto
next
  case (Cons i "is")
  from Cons.prems obtain h where h: "nvmlDeviceGetHandleByIndex lib i = Inr h"
    by (auto split: sum.splits)
  from Cons.prems h obtain nm e1 where n: "read_name lib h = (Inr nm, e1)"
    by (auto split: sum.splits prod.splits)
  let ?d = "\<lparr>index = i, name = nm\<rparr>"
  let ?s = "self\<lparr>gpus := gpus self @ [?d],
                 gpusUtilization := gpusUtilization self @ [True],
                 gpusVRAM := gpusVRAM self @ [True],
                 gpusTemperature := gpusTemperature self @ [True]\<rparr>"
  from Cons.prems h n obtain e2 where l: "enumerate_devices lib is ?s = (Inr self', e2)"
    by (auto split: prod.splits)
  from Cons.IH [OF l] obtain new where
    g: "gpus self' = (gpus self @ [?d]) @ new" and len: "length new = length is" and
    nm: "\<forall>k<length is. \<exists>h nm e. nvmlDeviceGetHandleByIndex lib (is ! k) = Inr h \<and>
              read_name lib h = (Inr nm, e) \<and> new ! k = \<lparr>index = is ! k, name = nm\<rparr>"
    by auto
  have "\<forall>k<length (i # is). \<exists>h nm e. nvmlDeviceGetHandleByIndex lib ((i # is) ! k) = Inr h \<and>
              read_name lib h = (Inr nm, e) \<and> (?d # new) ! k = \<lparr>index = (i # is) ! k, name = nm\<rparr>"
  proof (intro allI impI)
    fix k assume k: "k < length (i # is)"
    show "\<exists>h nm e. nvmlDeviceGetHandleByIndex lib ((i # is) ! k) = Inr h \<and>
              read_name lib h = (Inr nm, e) \<and> (?d # new) ! k = \<lparr>index = (i # is) ! k, name = nm\<rparr>"
    proof (cases k)
      case 0
      with h n show ?thesis by auto
    next
      case (Suc k')
      with k nm show ?thesis by auto
    qed
  qed
  with g len show ?case
    by (intro exI [of _ "?d # new"]) simp
qed

lemma enumerate_devices_returns:
  assumes "\<forall>i\<in>set is. \<exists>h. nvmlDeviceGetHandleByIndex lib i = Inr h \<and>
             (\<exists>nm e. read_name lib h = (Inr nm, e))"
  shows "\<exists>self' ev. enumerate_devices lib is self = (Inr self', ev)"
  using assms
proof (induction "is" arbitrary: self)
  case Nil
  then show ?case by simp
next
  case (Cons i "is")
  from Cons.prems obtain h nm e where h: "nvmlDeviceGetHandleByIndex lib i = Inr h"
    and n: "read_name lib h = (Inr nm, e)" by auto
  let ?s = "self\<lparr>gpus := gpus self @ [\<lparr>index = i, name = nm\<rparr>],
                 gpusUtilization := gpusUtilization self @ [True],
                 gpusVRAM := gpusVRAM self @ [True],
                 gpusTemperature := gpusTemperature self @ [True]\<rparr>"
  from Cons.prems have "\<forall>i\<in>set is. \<exists>h. nvmlDeviceGetHandleByIndex lib i = Inr h \<and>
             (\<exists>nm e. read_name lib h = (Inr nm, e))" by simp
  from Cons.IH [OF this, of ?s] obtain self' ev where
    "enumerate_devices lib is ?s = (Inr self', ev)" by blast
  with h n show ?case by simp
qed

lemma init_enumerated:
  assumes "init lib = (Inr self, ev)"
  shows "enumerated self \<and> (\<not> cuda self \<longrightarrow> cudaDevicesFound self = 0)"
proof (cases "nvmlInit lib")
  case (Inl e)
  with assms show ?thesis
    by (cases e) (auto simp: init_def enumerated_def GPUInfo_class_def)
next
  case (Inr u)
  with assms obtain n where n: "nvmlDeviceGetCount lib = Inr n"
    by (auto simp: init_def split: sum.splits)
  show ?thesis
  proof (cases "n > 0")
    case False
    with assms Inr n show ?thesis
      by (auto simp: init_def enumerated_def GPUInfo_class_def)
  next
    case True
    let ?s0 = "GPUInfo_class\<lparr>pynvmlLoaded := True, cudaDevicesFound := n\<rparr>"
    from assms Inr n True obtain s1 e1 where
      en: "enumerate_devices lib [0..<nat n] ?s0 = (Inr s1, e1)" and s: "self = s1\<lparr>cuda := True\<rparr>"
      by (auto simp: init_def split: sum.splits prod.splits)
    from enumerate_devices_shape [OF en] s show ?thesis
      by (simp add: enumerated_def GPUInfo_class_def)
  qed
qed

section \<open>When getStatus returns and when it raises\<close>

lemma getStatus_not_cuda:
  "\<not> (pynvmlLoaded self \<and> cuda self) \<Longrightarrow> getStatus lib self = (Inr empty_status, self, [])"
  by (auto simp: getStatus_def empty_status_def)

lemma main_loop_not_cuda:
  assumes "\<not> (pynvmlLoaded self \<and> cuda self)"
  shows "\<exists>ev. main_loop ticks self acc = (None, acc @ replicate (length ticks) empty_status, self, ev)"
proof (induction ticks arbitrary: acc)
  case Nil
  then show ?case by simp
next
  case (Cons lib ticks)
  from Cons [of "acc @ [empty_status]"] obtain ev where
    "main_loop ticks self (acc @ [empty_status]) =
       (None, (acc @ [empty_status]) @ replicate (length ticks) empty_status, self, ev)"
    by blast
  with assms show ?case
    by (simp add: getStatus_not_cuda replicate_app_Cons_same)
qed

lemma device_status_vram:
  assumes "device_status lib s k = (Inr g, s', e)"
    and "nvmlDeviceGetHandleByIndex lib k = Inr h"
    and "nvmlDeviceGetMemoryInfo lib h = Inr (u, tot)"
    and "switchVRAM s" and "k < length (gpusVRAM s)" and "gpusVRAM s ! k"
  shows "vram_used g = u \<and> vram_total g = tot \<and>
         vram_used_percent g = PyFloatPercent u tot \<and> tot \<noteq> 0"
proof -
  from assms(1) obtain h' self1 ev1 ev2 ev3 where
    h': "nvmlDeviceGetHandleByIndex lib k = Inr h'" and
    u: "read_utilization lib s k h' = (Inr (gpu_utilization g), self1, ev1)" and
    v: "read_vram lib self1 k h' = (Inr (vram_used g, vram_total g, vram_used_percent g), ev2)" and
    "read_temperature lib self1 k h' = (Inr (gpu_temperature g), s', ev3)" and
    "e = ev1 @ ev2 @ ev3"
    by (rule device_status_Inr)
  from h' assms(2) have hh: "h' = h" by simp
  from read_utilization_descends [OF u] assms(4,5,6)
  have "switchVRAM self1" "k < length (gpusVRAM self1)" "gpusVRAM self1 ! k"
    by (simp_all add: descends_def)
  with v hh assms(3) show ?thesis
    by (auto simp: read_vram_def split: if_splits)
qed

lemma descends_answers:
  "descends s s' \<Longrightarrow> device_answers lib s' i = device_answers lib s i"
  by (auto simp: descends_def device_answers_def split: sum.splits)

lemma read_utilization_returns:
  "i < length (gpusUtilization self) \<Longrightarrow> \<exists>u s' e. read_utilization lib self i h = (Inr u, s', e)"
  by (auto simp: read_utilization_def split: sum.splits)

lemma read_temperature_returns:
  "i < length (gpusTemperature self) \<Longrightarrow> \<exists>u s' e. read_temperature lib self i h = (Inr u, s', e)"
  by (auto simp: read_temperature_def split: sum.splits)

lemma read_vram_returns:
  assumes "i < length (gpusVRAM self)" and "device_answers lib self i"
    and "nvmlDeviceGetHandleByIndex lib i = Inr h"
  shows "\<exists>x e. read_vram lib self i h = (Inr x, e)"
  using assms
  by (auto simp: read_vram_def device_answers_def split: sum.splits prod.splits)

lemma device_status_returns:
  assumes "i < length (gpusUtilization self)" and "i < length (gpusVRAM self)"
    and "i < length (gpusTemperature self)" and "device_answers lib self i"
  shows "\<exists>g s' e. device_status lib self i = (Inr g, s', e)"
proof -
  from assms(4) obtain h where h: "nvmlDeviceGetHandleByIndex lib i = Inr h"
    by (auto simp: device_answers_def split: sum.splits)
  from read_utilization_returns [OF assms(1)] obtain u s1 e1 where
    u: "read_utilization lib self i h = (Inr u, s1, e1)" by blast
  have d: "descends self s1" using read_utilization_descends [OF u] .
  with assms(2,3) have i1: "i < length (gpusVRAM s1)" "i < length (gpusTemperature s1)"
    by (simp_all add: descends_def)
  from descends_answers [OF d] assms(4) have "device_answers lib s1 i" by simp
  from read_vram_returns [OF i1(1) this h] obtain x e2 where
    v: "read_vram lib s1 i h = (Inr x, e2)" by blast
  from read_temperature_returns [OF i1(2)] obtain t s3 e3 where
    t: "read_temperature lib s1 i h = (Inr t, s3, e3)" by blast
  from h u v t show ?thesis
    by (cases x) (simp add: device_status_def)
qed

lemma getStatus_loop_returns:
  assumes "\<forall>i\<in>set is. i < length (gpusUtilization self) \<and> i < length (gpusVRAM self) \<and>
             i < length (gpusTemperature self) \<and> device_answers lib self i"
  shows "\<exists>gs s' e. getStatus_loop lib is self acc = (Inr gs, s', e)"
  using assms
proof (induction "is" arbitrary: self acc)
  case Nil
  then show ?case by simp
next
  case (Cons i "is")
  from Cons.prems have "i < length (gpusUtilization self)" "i < length (gpusVRAM self)"
    "i < length (gpusTemperature self)" "device_answers lib self i" by simp_all
  from device_status_returns [OF this] obtain g s1 e1 where
    d: "device_status lib self i = (Inr g, s1, e1)" by blast
  have ds: "descends self s1" using device_status_descends [OF d] .
  with Cons.prems have "\<forall>i\<in>set is. i < length (gpusUtilization s1) \<and> i < length (gpusVRAM s1) \<and>
             i < length (gpusTemperature s1) \<and> device_answers lib s1 i"
    using descends_answers [OF ds] by (simp add: descends_def)
  from Cons.IH [OF this, of "acc @ [g]"] obtain gs s' e where
    "getStatus_loop lib is s1 (acc @ [g]) = (Inr gs, s', e)" by blast
  with d show ?case by simp
qed

lemma getStatus_returns:
  assumes "lists_ok self" and "\<forall>j<nat (cudaDevicesFound self). device_answers lib self j"
  shows "\<exists>status self' ev. getStatus lib self = (Inr status, self', ev)"
proof (cases "pynvmlLoaded self \<and> cuda self")
  case False
  then show ?thesis by (auto simp: getStatus_def)
next
  case True
  from assms have "\<forall>i\<in>set [0..<nat (cudaDevicesFound self)].
      i < length (gpusUtilization self) \<and> i < length (gpusVRAM self) \<and>
      i < length (gpusTemperature self) \<and> device_answers lib self i"
    by (simp add: lists_ok_def Let_def)
  from getStatus_loop_returns [OF this, of "[]"] True show ?thesis
    by (auto simp: getStatus_def)
qed

text \<open>An exception of the VRAM step leaves the body of the loop.\<close>

lemma device_status_raises:
  assumes "nvmlDeviceGetHandleByIndex lib i = Inr h"
    and "i < length (gpusUtilization self)"
    and "\<And>s1. descends self s1 \<Longrightarrow> \<exists>ev. read_vram lib s1 i h = (Inl e, ev)"
  shows "\<exists>s' ev. device_status lib self i = (Inl e, s', ev)"
proof -
  from read_utilization_returns [OF assms(2)] obtain u s1 e1 where
    u: "read_utilization lib self i h = (Inr u, s1, e1)" by blast
  from assms(3) [OF read_utilization_descends [OF u]] obtain ev where
    "read_vram lib s1 i h = (Inl e, ev)" by blast
  with assms(1) u show ?thesis by (simp add: device_status_def)
qed

lemma getStatus_raises:
  assumes "pynvmlLoaded self" and "cuda self" and "lists_ok self"
    and "i < nat (cudaDevicesFound self)" and "\<forall>j<i. device_answers lib self j"
    and "nvmlDeviceGetHandleByIndex lib i = Inr h"
    and "\<And>s1. descends self s1 \<Longrightarrow> \<exists>ev. read_vram lib s1 i h = (Inl e, ev)"
  shows "\<exists>self' ev. getStatus lib self = (Inl e, self', ev)"
proof -
  let ?n = "nat (cudaDevicesFound self)"
  from assms(4) have split: "[0..<?n] = [0..<i] @ i # [Suc i..<?n]"
    by (metis less_imp_le_nat upt_add_eq_append upt_conv_Cons le0 le_add_diff_inverse)
  from assms(3,4,5) have "\<forall>j\<in>set [0..<i].
      j < length (gpusUtilization self) \<and> j < length (gpusVRAM self) \<and>
      j < length (gpusTemperature self) \<and> device_answers lib self j"
    by (simp add: lists_ok_def Let_def)
  from getStatus_loop_returns [OF this, of "[]"] obtain gs s e0 where
    pre: "getStatus_loop lib [0..<i] self [] = (Inr gs, s, e0)" by blast
  have ds: "descends self s" using getStatus_loop_descends [OF pre] .
  with assms(3,4) have iu: "i < length (gpusUtilization s)"
    by (simp add: lists_ok_def Let_def descends_def)
  have "\<And>s1. descends s s1 \<Longrightarrow> \<exists>ev. read_vram lib s1 i h = (Inl e, ev)"
    using assms(7) descends_trans [OF ds] by blast
  from device_status_raises [OF assms(6) iu this] obtain s' ev where
    "device_status lib s i = (Inl e, s', ev)" by blast
  with pre have "getStatus_loop lib [0..<?n] self [] = (Inl e, s', e0 @ ev)"
    unfolding split by (simp add: getStatus_loop_append)
  with assms(1,2) show ?thesis by (simp add: getStatus_def)
qed

lemma read_vram_fails:
  assumes "switchVRAM self" and "i < length (gpusVRAM self)" and "gpusVRAM self ! i"
  shows "nvmlDeviceGetMemoryInfo lib h = Inl e \<Longrightarrow> read_vram lib self i h = (Inl e, [Query VRAM i])"
    and "nvmlDeviceGetMemoryInfo lib h = Inr (u, 0) \<Longrightarrow>
         read_vram lib self i h = (Inl ZeroDivisionError, [Query VRAM i])"
  using assms by (simp_all add: read_vram_def)

lemma device_status_polled:
  assumes "device_status lib s k = (Inr g, s', e)"
    and "nvmlDeviceGetHandleByIndex lib k = Inr h"
    and "switchVRAM s" and "k < length (gpusVRAM s)" and "gpusVRAM s ! k"
  shows "nvmlDeviceGetMemoryInfo lib h = Inr (vram_used g, vram_total g) \<and>
         vram_total g \<noteq> 0 \<and>
         vram_used_percent g = PyFloatPercent (vram_used g) (vram_total g)"
proof -
  from assms(1) obtain h' self1 ev1 ev2 ev3 where
    h': "nvmlDeviceGetHandleByIndex lib k = Inr h'" and
    u: "read_utilization lib s k h' = (Inr (gpu_utilization g), self1, ev1)" and
    v: "read_vram lib self1 k h' = (Inr (vram_used g, vram_total g, vram_used_percent g), ev2)" and
    "read_temperature lib self1 k h' = (Inr (gpu_temperature g), s', ev3)" and
    "e = ev1 @ ev2 @ ev3"
    by (rule device_status_Inr)
  from h' assms(2) have hh: "h' = h" by simp
  from read_utilization_descends [OF u] assms(3,4,5)
  have "switchVRAM self1" "k < length (gpusVRAM self1)" "gpusVRAM self1 ! k"
    by (simp_all add: descends_def)
  with v hh show ?thesis
    by (auto simp: read_vram_def split: if_splits sum.splits prod.splits)
qed

lemma less_two_cases: "j < (2::nat) \<Longrightarrow> j = 0 \<or> j = 1"
  by auto

lemma init_lists_ok:
  assumes "init lib = (Inr self, ev)"
  shows "lists_ok self"
  using init_enumerated [OF assms] by (simp add: enumerated_def lists_ok_def Let_def)

text \<open>The first device of a tick: a failed utilization query zeroes the whole record.\<close>

lemma getStatus_first_fails:
  assumes "pynvmlLoaded self" and "cuda self" and "0 < cudaDevicesFound self"
    and "switchGPU self" and "gpusUtilization self \<noteq> []" and "gpusUtilization self ! 0"
    and "nvmlDeviceGetHandleByIndex lib 0 = Inr h"
    and "nvmlDeviceGetUtilizationRates lib h = Inl e"
    and "getStatus lib self = (r, self', ev)"
  shows "\<not> switchGPU self' \<and>
         (\<forall>status. r = Inr status \<longrightarrow> (\<forall>g\<in>set (sample_gpus status). gpu_utilization g = 0))"
proof -
  let ?n = "nat (cudaDevicesFound self)"
  from assms(3) have split: "[0..<?n] = 0 # [1..<?n]"
    by (simp add: upt_conv_Cons)
  obtain rd sd ed where d: "device_status lib self 0 = (rd, sd, ed)"
    by (cases "device_status lib self 0") auto
  from assms(4,5,6,8) obtain e0 where
    ru: "read_utilization lib self 0 h = (Inr 0, self\<lparr>switchGPU := False\<rparr>, Query Utilization 0 # e0)"
    by (simp add: read_utilization_def)
  from d assms(7) ru have q: "Query Utilization 0 \<in> set ed"
    unfolding device_status_def by (auto split: sum.splits prod.splits)
  have f: "lib_query lib Utilization h = Inl e" using assms(8) by simp
  from device_status_fail [OF d q _ assms(7) f] have off: "\<not> switchGPU sd" by simp
  have z: "\<forall>g. rd = Inr g \<longrightarrow> gpu_utilization g = 0"
  proof (intro allI impI)
    fix g assume "rd = Inr g"
    with d have "device_status lib self 0 = (Inr g, sd, ed)" by simp
    then obtain h' self1 ev1 where "nvmlDeviceGetHandleByIndex lib 0 = Inr h'"
      "read_utilization lib self 0 h' = (Inr (gpu_utilization g), self1, ev1)"
      by (rule device_status_Inr)
    with assms(7) ru show "gpu_utilization g = 0" by simp
  qed
  show ?thesis
  proof (cases rd)
    case (Inl x)
    with assms(1,2,9) d off show ?thesis
      by (auto simp: getStatus_def split)
  next
    case (Inr g)
    obtain r2 s2 e2 where l: "getStatus_loop lib [1..<?n] sd ([] @ [g]) = (r2, s2, e2)"
      by (cases "getStatus_loop lib [1..<?n] sd ([] @ [g])") auto
    have off': "\<not> switch_of Utilization sd" using off by simp
    from getStatus_loop_off [OF off' l, of 0]
    have rest: "\<forall>gs. r2 = Inr gs \<longrightarrow>
        (\<exists>new. gs = ([] @ [g]) @ new \<and> (\<forall>g\<in>set new. entry_field Utilization g = 0))"
      by simp
    from descends_switch [OF getStatus_loop_descends [OF l] off'] have off2: "\<not> switchGPU s2"
      by simp
    from assms(1,2,9) d Inr l have res: "self' = s2"
      "\<forall>status. r = Inr status \<longrightarrow> r2 = Inr (sample_gpus status)"
      by (auto simp: getStatus_def split split: sum.splits)
    have "\<forall>status. r = Inr status \<longrightarrow> (\<forall>g\<in>set (sample_gpus status). gpu_utilization g = 0)"
    proof (intro allI impI)
      fix status assume "r = Inr status"
      with res rest obtain new where "sample_gpus status = [g] @ new"
        "\<forall>g\<in>set new. entry_field Utilization g = 0" by auto
      with z Inr show "\<forall>g\<in>set (sample_gpus status). gpu_utilization g = 0" by auto
    qed
    with res off2 show ?thesis by simp
  qed
qed

section \<open>Later ticks do not depend on the query of a metric that is off\<close>

lemma same_but_Utilization:
  assumes "same_but Utilization a b"
  shows "nvmlDeviceGetHandleByIndex a = nvmlDeviceGetHandleByIndex b"
    and "nvmlDeviceGetMemoryInfo a = nvmlDeviceGetMemoryInfo b"
    and "nvmlDeviceGetTemperature a = nvmlDeviceGetTemperature b"
proof -
  from assms have eq: "a\<lparr>nvmlDeviceGetUtilizationRates := nvmlDeviceGetUtilizationRates b\<rparr> = b"
    by (simp add: same_but_def)
  from arg_cong [OF eq, of nvmlDeviceGetHandleByIndex]
  show "nvmlDeviceGetHandleByIndex a = nvmlDeviceGetHandleByIndex b" by simp
  from arg_cong [OF eq, of nvmlDeviceGetMemoryInfo]
  show "nvmlDeviceGetMemoryInfo a = nvmlDeviceGetMemoryInfo b" by simp
  from arg_cong [OF eq, of nvmlDeviceGetTemperature]
  show "nvmlDeviceGetTemperature a = nvmlDeviceGetTemperature b" by simp
qed

lemma same_but_VRAM:
  assumes "same_but VRAM a b"
  shows "nvmlDeviceGetHandleByIndex a = nvmlDeviceGetHandleByIndex b"
    and "nvmlDeviceGetUtilizationRates a = nvmlDeviceGetUtilizationRates b"
    and "nvmlDeviceGetTemperature a = nvmlDeviceGetTemperature b"
proof -
  from assms have eq: "a\<lparr>nvmlDeviceGetMemoryInfo := nvmlDeviceGetMemoryInfo b\<rparr> = b"
    by (simp add: same_but_def)
  from arg_cong [OF eq, of nvmlDeviceGetHandleByIndex]
  show "nvmlDeviceGetHandleByIndex a = nvmlDeviceGetHandleByIndex b" by simp
  from arg_cong [OF eq, of nvmlDeviceGetUtilizationRates]
  show "nvmlDeviceGetUtilizationRates a = nvmlDeviceGetUtilizationRates b" by simp
  from arg_cong [OF eq, of nvmlDeviceGetTemperature]
  show "nvmlDeviceGetTemperature a = nvmlDeviceGetTemperature b" by simp
qed

lemma same_but_Temperature:
  assumes "same_but Temperature a b"
  shows "nvmlDeviceGetHandleByIndex a = nvmlDeviceGetHandleByIndex b"
    and "nvmlDeviceGetUtilizationRates a = nvmlDeviceGetUtilizationRates b"
    and "nvmlDeviceGetMemoryInfo a = nvmlDeviceGetMemoryInfo b"
proof -
  from assms have eq: "a\<lparr>nvmlDeviceGetTemperature := nvmlDeviceGetTemperature b\<rparr> = b"
    by (simp add: same_but_def)
  from arg_cong [OF eq, of nvmlDeviceGetHandleByIndex]
  show "nvmlDeviceGetHandleByIndex a = nvmlDeviceGetHandleByIndex b" by simp
  from arg_cong [OF eq, of nvmlDeviceGetUtilizationRates]
  show "nvmlDeviceGetUtilizationRates a = nvmlDeviceGetUtilizationRates b" by simp
  from arg_cong [OF eq, of nvmlDeviceGetMemoryInfo]
  show "nvmlDeviceGetMemoryInfo a = nvmlDeviceGetMemoryInfo b" by simp
qed

text \<open>Each step reads the library through its own query only.\<close>

lemma read_utilization_cong:
  "nvmlDeviceGetUtilizationRates a = nvmlDeviceGetUtilizationRates b \<Longrightarrow>
   read_utilization a s i h = read_utilization b s i h"
  by (simp add: read_utilization_def)

lemma read_vram_cong:
  "nvmlDeviceGetMemoryInfo a = nvmlDeviceGetMemoryInfo b \<Longrightarrow>
   read_vram a s i h = read_vram b s i h"
  by (simp add: read_vram_def)

lemma read_temperature_cong:
  "nvmlDeviceGetTemperature a = nvmlDeviceGetTemperature b \<Longrightarrow>
   read_temperature a s i h = read_temperature b s i h"
  by (simp add: read_temperature_def)

lemma read_utilization_same:
  assumes "same_but m a b" and "\<not> switch_of m s"
  shows "read_utilization a s i h = read_utilization b s i h"
proof (cases m)
  case Utilization
  with assms(2) show ?thesis by (simp add: read_utilization_off)
next
  case VRAM
  with assms(1) show ?thesis by (intro read_utilization_cong same_but_VRAM(2)) simp
next
  case Temperature
  with assms(1) show ?thesis by (intro read_utilization_cong same_but_Temperature(2)) simp
qed

lemma read_vram_same:
  assumes "same_but m a b" and "\<not> switch_of m s"
  shows "read_vram a s i h = read_vram b s i h"
proof (cases m)
  case Utilization
  with assms(1) show ?thesis by (intro read_vram_cong same_but_Utilization(2)) simp
next
  case VRAM
  with assms(2) show ?thesis by (simp add: read_vram_off)
next
  case Temperature
  with assms(1) show ?thesis by (intro read_vram_cong same_but_Temperature(3)) simp
qed

lemma read_temperature_same:
  assumes "same_but m a b" and "\<not> switch_of m s"
  shows "read_temperature a s i h = read_temperature b s i h"
proof (cases m)
  case Utilization
  with assms(1) show ?thesis by (intro read_temperature_cong same_but_Utilization(3)) simp
next
  case VRAM
  with assms(1) show ?thesis by (intro read_temperature_cong same_but_VRAM(3)) simp
next
  case Temperature
  with assms(2) show ?thesis by (simp add: read_temperature_off)
qed

lemma same_but_handle:
  assumes "same_but m a b"
  shows "nvmlDeviceGetHandleByIndex a = nvmlDeviceGetHandleByIndex b"
proof (cases m)
  case Utilization
  with assms show ?thesis by (intro same_but_Utilization(1)) simp
next
  case VRAM
  with assms show ?thesis by (intro same_but_VRAM(1)) simp
next
  case Temperature
  with assms show ?thesis by (intro same_but_Temperature(1)) simp
qed

text \<open>The body of the loop as a function of what its three steps give.\<close>

lemma device_status_steps:
  assumes "nvmlDeviceGetHandleByIndex lib i = Inr h"
    and "read_utilization lib s i h = (r1, s1, e1)"
    and "read_vram lib s1 i h = (r2, e2)"
    and "read_temperature lib s1 i h = (r3, s3, e3)"
  shows "device_status lib s i =
     (case r1 of
        Inl e \<Rightarrow> (Inl e, s1, e1)
      | Inr u \<Rightarrow>
          (case r2 of
             Inl e \<Rightarrow> (Inl e, s1, e1 @ e2)
           | Inr v \<Rightarrow>
               (case r3 of
                  Inl e \<Rightarrow> (Inl e, s3, e1 @ e2 @ e3)
                | Inr t \<Rightarrow>
                    (Inr \<lparr>gpu_utilization = u, gpu_temperature = t,
                          vram_total = fst (snd v), vram_used = fst v,
                          vram_used_percent = snd (snd v)\<rparr>,
                     s3, e1 @ e2 @ e3))))"
  using assms unfolding device_status_def
  by (cases r1; cases r2; cases r3) (auto split: prod.splits)

lemma device_status_same:
  assumes "same_but m a b" and "\<not> switch_of m s"
  shows "device_status a s i = device_status b s i"
proof (cases "nvmlDeviceGetHandleByIndex b i")
  case (Inl e)
  with same_but_handle [OF assms(1)] show ?thesis by (simp add: device_status_def)
next
  case (Inr h)
  obtain r1 s1 e1 where u: "read_utilization b s i h = (r1, s1, e1)"
    by (cases "read_utilization b s i h") auto
  obtain r2 e2 where v: "read_vram b s1 i h = (r2, e2)"
    by (cases "read_vram b s1 i h") auto
  obtain r3 s3 e3 where t: "read_temperature b s1 i h = (r3, s3, e3)"
    by (cases "read_temperature b s1 i h") auto
  have off1: "\<not> switch_of m s1"
    using descends_switch [OF read_utilization_descends [OF u] assms(2)] .
  from read_utilization_same [OF assms] u
  have ua: "read_utilization a s i h = (r1, s1, e1)" by simp
  from read_vram_same [OF assms(1) off1] v
  have va: "read_vram a s1 i h = (r2, e2)" by simp
  from read_temperature_same [OF assms(1) off1] t
  have ta: "read_temperature a s1 i h = (r3, s3, e3)" by simp
  from Inr same_but_handle [OF assms(1)] have ha: "nvmlDeviceGetHandleByIndex a i = Inr h"
    by simp
  show ?thesis
    unfolding device_status_steps [OF ha ua va ta] device_status_steps [OF Inr u v t] ..
qed

lemma getStatus_loop_same:
  assumes "same_but m a b" and "\<not> switch_of m s"
  shows "getStatus_loop a is s acc = getStatus_loop b is s acc"
  using assms(2)
proof (induction "is" arbitrary: s acc)
  case Nil
  then show ?case by simp
next
  case (Cons i "is")
  obtain rd sd ed where d: "device_status b s i = (rd, sd, ed)"
    by (cases "device_status b s i") auto
  with device_status_same [OF assms(1) Cons.prems] have da: "device_status a s i = (rd, sd, ed)"
    by simp
  have off: "\<not> switch_of m sd"
    using descends_switch [OF device_status_descends [OF d] Cons.prems] .
  show ?case
  proof (cases rd)
    case (Inl e)
    with d da show ?thesis by simp
  next
    case (Inr g)
    with d da Cons.IH [OF off, of "acc @ [g]"] show ?thesis by simp
  qed
qed

lemma getStatus_same:
  assumes "same_but m a b" and "\<not> switch_of m s"
  shows "getStatus a s = getStatus b s"
  by (simp add: getStatus_def getStatus_loop_same [OF assms])

lemma main_loop_same:
  assumes "list_all2 (same_but m) xs ys" and "\<not> switch_of m s"
  shows "main_loop xs s acc = main_loop ys s acc"
  using assms
proof (induction xs ys arbitrary: s acc rule: list_all2_induct)
  case Nil
  then show ?case by simp
next
  case (Cons a xs b ys)
  obtain r1 s1 e1 where g: "getStatus b s = (r1, s1, e1)"
    by (cases "getStatus b s") auto
  with getStatus_same [OF Cons.hyps(1) Cons.prems] have ga: "getStatus a s = (r1, s1, e1)"
    by simp
  have off: "\<not> switch_of m s1"
    using descends_switch [OF getStatus_descends [OF g] Cons.prems] .
  show ?case
  proof (cases r1)
    case (Inl e)
    with g ga show ?thesis by simp
  next
    case (Inr status)
    with g ga Cons.IH [OF off, of "acc @ [status]"] show ?thesis by simp
  qed
qed

text \<open>A failing query leaves \<open>0\<close> in the entry, whatever the switches are.\<close>

lemma device_status_failed_zero:
  assumes "m \<noteq> VRAM" and "nvmlDeviceGetHandleByIndex lib i = Inr h"
    and "lib_query lib m h = Inl e"
    and "device_status lib s i = (Inr g, s', ev)"
  shows "entry_field m g = 0"
proof -
  from assms(4) obtain h' self1 ev1 ev2 ev3 where
    h': "nvmlDeviceGetHandleByIndex lib i = Inr h'" and
    u: "read_utilization lib s i h' = (Inr (gpu_utilization g), self1, ev1)" and
    "read_vram lib self1 i h' = (Inr (vram_used g, vram_total g, vram_used_percent g), ev2)" and
    t: "read_temperature lib self1 i h' = (Inr (gpu_temperature g), s', ev3)" and
    "ev = ev1 @ ev2 @ ev3"
    by (rule device_status_Inr)
  from h' assms(2) have hh: "h' = h" by simp
  show ?thesis
  proof (cases m)
    case Utilization
    with assms(3) u hh show ?thesis
      by (auto simp: read_utilization_def split: if_splits)
  next
    case VRAM
    with assms(1) show ?thesis by simp
  next
    case Temperature
    with assms(3) t hh show ?thesis
      by (auto simp: read_temperature_def split: if_splits)
  qed
qed

text \<open>The step of a device whose query fails leaves the switch of the metric off.\<close>

lemma device_status_turns_off:
  assumes "m \<noteq> VRAM" and "nvmlDeviceGetHandleByIndex lib i = Inr h"
    and "lib_query lib m h = Inl e"
    and "i < length (flags_of m s)" and "flags_of m s ! i"
    and "m = Temperature \<longrightarrow>
           i < length (gpusUtilization s) \<and> i < length (gpusVRAM s) \<and> device_answers lib s i"
    and "device_status lib s i = (rd, sd, ed)"
  shows "\<not> switch_of m sd"
proof (cases "switch_of m s")
  case False
  from descends_switch [OF device_status_descends [OF assms(7)] False] show ?thesis .
next
  case True
  obtain r1 s1 e1 where u: "read_utilization lib s i h = (r1, s1, e1)"
    by (cases "read_utilization lib s i h") auto
  obtain r2 e2 where v: "read_vram lib s1 i h = (r2, e2)"
    by (cases "read_vram lib s1 i h") auto
  obtain r3 s3 e3 where t: "read_temperature lib s1 i h = (r3, s3, e3)"
    by (cases "read_temperature lib s1 i h") auto
  have d1: "descends s s1" using read_utilization_descends [OF u] .
  have d3: "descends s1 s3" using read_temperature_descends [OF t] .
  note steps = device_status_steps [OF assms(2) u v t]
  show ?thesis
  proof (cases m)
    case Utilization
    with True assms(3,4,5) u have "\<not> switchGPU s1"
      by (auto simp: read_utilization_def)
    with d3 have "\<not> switchGPU s1 \<and> \<not> switchGPU s3" by (auto simp: descends_def)
    moreover from steps assms(7) have "sd = s1 \<or> sd = s3"
      by (auto split: sum.splits)
    ultimately show ?thesis using Utilization by auto
  next
    case VRAM
    with assms(1) show ?thesis by simp
  next
    case Temperature
    with assms(6) have iu: "i < length (gpusUtilization s)" and iv: "i < length (gpusVRAM s)"
      and an: "device_answers lib s i" by simp_all
    from read_utilization_returns [OF iu, of lib h] u obtain x where r1: "r1 = Inr x" by auto
    from iv d1 have iv1: "i < length (gpusVRAM s1)" by (simp add: descends_def)
    from an descends_answers [OF d1] have "device_answers lib s1 i" by simp
    from read_vram_returns [OF iv1 this assms(2)] v obtain y where r2: "r2 = Inr y" by auto
    from Temperature assms(4,5) d1
    have "i < length (gpusTemperature s1)" "gpusTemperature s1 ! i"
      by (simp_all add: descends_def)
    with Temperature assms(3) t have "\<not> switchTemperature s3"
      by (auto simp: read_temperature_def split: if_splits)
    moreover from steps assms(7) r1 r2 have "sd = s3"
      by (auto split: sum.splits)
    ultimately show ?thesis using Temperature by simp
  qed
qed

text \<open>A tick that reaches a failing query ends with the switch of the metric off.\<close>

lemma getStatus_turns_off:
  assumes "m \<noteq> VRAM"
    and "pynvmlLoaded self" and "cuda self" and "lists_ok self"
    and "i < nat (cudaDevicesFound self)" and "flags_of m self ! i"
    and "\<forall>j<i. device_answers lib self j"
    and "m = Temperature \<longrightarrow> device_answers lib self i"
    and "nvmlDeviceGetHandleByIndex lib i = Inr h" and "lib_query lib m h = Inl e"
    and "getStatus lib self = (r, self1, ev1)"
  shows "\<not> switch_of m self1"
proof -
  let ?n = "nat (cudaDevicesFound self)"
  from assms(5) have split: "[0..<?n] = [0..<i] @ i # [Suc i..<?n]"
    by (metis less_imp_le_nat upt_add_eq_append upt_conv_Cons le0 le_add_diff_inverse)
  from assms(4,5) have len: "i < length (gpusUtilization self)" "i < length (gpusVRAM self)"
    "i < length (gpusTemperature self)"
    by (simp_all add: lists_ok_def Let_def)
  from assms(4,5,7) have "\<forall>j\<in>set [0..<i].
      j < length (gpusUtilization self) \<and> j < length (gpusVRAM self) \<and>
      j < length (gpusTemperature self) \<and> device_answers lib self j"
    by (simp add: lists_ok_def Let_def)
  from getStatus_loop_returns [OF this, of "[]"] obtain gs s e0 where
    pre: "getStatus_loop lib [0..<i] self [] = (Inr gs, s, e0)" by blast
  have ds: "descends self s" using getStatus_loop_descends [OF pre] .
  obtain rd sd ed where d: "device_status lib s i = (rd, sd, ed)"
    by (cases "device_status lib s i") auto
  from ds len have len': "i < length (gpusUtilization s)" "i < length (gpusVRAM s)"
    "i < length (gpusTemperature s)"
    by (simp_all add: descends_def)
  from ds assms(6) have fl: "flags_of m s ! i" by (cases m) (simp_all add: descends_def)
  from len' have fl': "i < length (flags_of m s)" by (cases m) simp_all
  from assms(8) descends_answers [OF ds] len'
  have tm: "m = Temperature \<longrightarrow>
      i < length (gpusUtilization s) \<and> i < length (gpusVRAM s) \<and> device_answers lib s i"
    by simp
  from device_status_turns_off [OF assms(1,9,10) fl' fl tm d] have off: "\<not> switch_of m sd" .
  obtain r2 s2 e2 where l: "getStatus_loop lib (i # [Suc i..<?n]) s gs = (r2, s2, e2)"
    by (cases "getStatus_loop lib (i # [Suc i..<?n]) s gs") auto
  have "\<not> switch_of m s2"
  proof (cases rd)
    case (Inl x)
    with d l have "s2 = sd" by simp
    with off show ?thesis by simp
  next
    case (Inr g)
    obtain r3 s3 e3 where l3: "getStatus_loop lib [Suc i..<?n] sd (gs @ [g]) = (r3, s3, e3)"
      by (cases "getStatus_loop lib [Suc i..<?n] sd (gs @ [g])") auto
    with d l Inr have "s2 = s3" by simp
    with descends_switch [OF getStatus_loop_descends [OF l3] off] show ?thesis by simp
  qed
  moreover from pre l have "getStatus_loop lib [0..<?n] self [] = (r2, s2, e0 @ e2)"
    unfolding split by (simp add: getStatus_loop_append)
  with assms(2,3,11) have "self1 = s2"
    by (auto simp: getStatus_def split: sum.splits)
  ultimately show ?thesis by simp
qed

lemma getStatus_length:
  assumes "getStatus lib s = (Inr status, s', ev)" and "pynvmlLoaded s" and "cuda s"
  shows "length (sample_gpus status) = nat (cudaDevicesFound s)"
  using getStatus_entries [OF assms] by simp

lemma main_loop_lengths:
  assumes "pynvmlLoaded s" and "cuda s"
    and "main_loop ticks s acc = (r, results, s', ev)"
  shows "\<exists>new. results = acc @ new \<and>
           (\<forall>st\<in>set new. length (sample_gpus st) = nat (cudaDevicesFound s))"
  using assms
proof (induction ticks arbitrary: s acc r results s' ev)
  case Nil
  then show ?case by auto
next
  case (Cons lib ticks)
  obtain r1 s1 e1 where g: "getStatus lib s = (r1, s1, e1)"
    by (cases "getStatus lib s") auto
  show ?case
  proof (cases r1)
    case (Inl e)
    with Cons.prems g show ?thesis by auto
  next
    case (Inr status)
    obtain r2 res2 s2 e2 where l: "main_loop ticks s1 (acc @ [status]) = (r2, res2, s2, e2)"
      by (cases "main_loop ticks s1 (acc @ [status])") auto
    have d: "descends s s1" using getStatus_descends [OF g] .
    with Cons.prems have on: "pynvmlLoaded s1" "cuda s1"
      and n: "cudaDevicesFound s1 = cudaDevicesFound s"
      by (simp_all add: descends_def)
    from Cons.IH [OF on l] n obtain new where
      new: "res2 = (acc @ [status]) @ new"
      "\<forall>st\<in>set new. length (sample_gpus st) = nat (cudaDevicesFound s)"
      by auto
    from g Inr Cons.prems(1,2) have "length (sample_gpus status) = nat (cudaDevicesFound s)"
      using getStatus_length by simp
    moreover from Cons.prems(3) g Inr l have "results = res2" by simp
    ultimately show ?thesis using new
      by (intro exI [of _ "status # new"]) simp
  qed
qed

section \<open>The properties\<close>

text \<open>
  C1, as the code has it. A failed utilization query clears \<open>switchGPU\<close>, the switch of
  the whole object, not the entry of the failing device in \<open>gpusUtilization\<close>. So if the
  query raises for device 0 in some tick, then in the record of that tick and of every
  later tick the \<open>gpu_utilization\<close> field is \<open>0\<close> for device 0 and for every other device
  as well.
\<close>

theorem utilization_failure_disables_every_device:
  assumes "pynvmlLoaded self" and "cuda self" and "0 < cudaDevicesFound self"
    and "switchGPU self" and "gpusUtilization self \<noteq> []" and "gpusUtilization self ! 0"
    and "nvmlDeviceGetHandleByIndex lib 0 = Inr h"
    and "nvmlDeviceGetUtilizationRates lib h = Inl e"
    and "main_loop (lib # later) self acc = (r, results, self', ev)"
  shows "\<exists>new. results = acc @ new \<and>
           (\<forall>status\<in>set new. \<forall>g\<in>set (sample_gpus status). gpu_utilization g = 0)"
proof -
  obtain r1 s1 e1 where g: "getStatus lib self = (r1, s1, e1)"
    by (cases "getStatus lib self") auto
  from getStatus_first_fails [OF assms(1-8) g]
  have off: "\<not> switchGPU s1" and
    z: "\<forall>status. r1 = Inr status \<longrightarrow> (\<forall>g\<in>set (sample_gpus status). gpu_utilization g = 0)"
    by auto
  show ?thesis
  proof (cases r1)
    case (Inl x)
    with assms(9) g have "results = acc @ []" by simp
    then show ?thesis by (intro exI [of _ "[]"]) simp
  next
    case (Inr status)
    obtain r2 res2 s2 e2 where l: "main_loop later s1 (acc @ [status]) = (r2, res2, s2, e2)"
      by (cases "main_loop later s1 (acc @ [status])") auto
    from off have "\<not> switch_of Utilization s1" by simp
    from main_loop_off [OF this l, of 0] obtain new where
      n: "res2 = (acc @ [status]) @ new"
      "\<forall>s\<in>set new. \<forall>g\<in>set (sample_gpus s). entry_field Utilization g = 0"
      by blast
    from assms(9) g Inr l have "results = res2" by simp
    with n z Inr show ?thesis
      by (intro exI [of _ "status # new"]) simp
  qed
qed

theorem utilization_failure_disables_every_device_witness:
  "nvmlDeviceGetHandleByIndex fake_util_fail0 0 = Inr 100 \<and>
   nvmlDeviceGetUtilizationRates fake_util_fail0 100 = Inl (NVMLError ''Unknown Error'') \<and>
   length (fst (snd (main_loop [fake_util_fail0, fake_ok] two_gpus []))) = 2 \<and>
   length (sample_gpus (fst (snd (main_loop [fake_util_fail0, fake_ok] two_gpus [])) ! 1)) = 2 \<and>
   gpu_utilization
     (sample_gpus (fst (snd (main_loop [fake_util_fail0, fake_ok] two_gpus [])) ! 1) ! 1) = 0"
proof -
  let ?m = "main_loop [fake_util_fail0, fake_ok] two_gpus []"
  have s: "pynvmlLoaded two_gpus" "cuda two_gpus" "0 < cudaDevicesFound two_gpus"
    "switchGPU two_gpus" "gpusUtilization two_gpus \<noteq> []" "gpusUtilization two_gpus ! 0"
    by code_simp+
  have h: "nvmlDeviceGetHandleByIndex fake_util_fail0 0 = Inr 100" by code_simp
  have q: "nvmlDeviceGetUtilizationRates fake_util_fail0 100 = Inl (NVMLError ''Unknown Error'')"
    by code_simp
  have m: "?m = (fst ?m, fst (snd ?m), fst (snd (snd ?m)), snd (snd (snd ?m)))" by simp
  have l: "length (fst (snd ?m)) = 2" by code_simp
  have l1: "length (sample_gpus (fst (snd ?m) ! 1)) = 2" by code_simp
  from utilization_failure_disables_every_device [OF s h q m]
  have all: "\<forall>status\<in>set (fst (snd ?m)). \<forall>g\<in>set (sample_gpus status). gpu_utilization g = 0"
    by simp
  from l have "fst (snd ?m) ! 1 \<in> set (fst (snd ?m))" by simp
  moreover from l1 have "sample_gpus (fst (snd ?m) ! 1) ! 1 \<in> set (sample_gpus (fst (snd ?m) ! 1))"
    by simp
  ultimately have "gpu_utilization (sample_gpus (fst (snd ?m) ! 1) ! 1) = 0"
    using all by blast
  with h q l l1 show ?thesis by (simp only: simp_thms)
qed

text \<open>
  C1, as the specification states it, fails in its own scenario: in the third and the
  fourth tick the library reports 55 for device 1, and the records show \<open>0\<close>.
\<close>

theorem device_isolation_counterexample:
  "fst (init fake_ok) = Inr two_gpus \<and>
   nvmlDeviceGetHandleByIndex (scenario_ticks ! 2) 0 = Inr 100 \<and>
   nvmlDeviceGetUtilizationRates (scenario_ticks ! 2) 100 = Inl (NVMLError ''Unknown Error'') \<and>
   nvmlDeviceGetHandleByIndex (scenario_ticks ! 2) 1 = Inr 101 \<and>
   nvmlDeviceGetUtilizationRates (scenario_ticks ! 2) 101 = Inr 55 \<and>
   nvmlDeviceGetUtilizationRates (scenario_ticks ! 3) 101 = Inr 55 \<and>
   fst (main_loop scenario_ticks two_gpus []) = None \<and>
   gpu_utilization (sample_gpus (fst (snd (main_loop scenario_ticks two_gpus [])) ! 1) ! 1) = 55 \<and>
   gpu_utilization (sample_gpus (fst (snd (main_loop scenario_ticks two_gpus [])) ! 2) ! 1) = 0 \<and>
   gpu_utilization (sample_gpus (fst (snd (main_loop scenario_ticks two_gpus [])) ! 3) ! 1) = 0 \<and>
   gpusUtilization (fst (snd (snd (main_loop scenario_ticks two_gpus [])))) = [True, True] \<and>
   switchGPU (fst (snd (snd (main_loop scenario_ticks two_gpus [])))) = False"
  by code_simp

text \<open>
  C2. An exception of the memory query leaves \<open>getStatus\<close>: the call raises it when the
  devices before the failing one answer, and a program run in which some tick meets
  such a failure ends with an exception and writes no file. The utilization and
  temperature queries are different: whatever they return or raise, \<open>getStatus\<close>
  returns a record as long as the handle lookups and the memory queries answer.
\<close>

theorem vram_failure_propagates:
  "(pynvmlLoaded self \<and> cuda self \<and> lists_ok self \<and> i < nat (cudaDevicesFound self) \<and>
    (\<forall>j<i. device_answers lib self j) \<and> switchVRAM self \<and> gpusVRAM self ! i \<and>
    nvmlDeviceGetHandleByIndex lib i = Inr h \<and> nvmlDeviceGetMemoryInfo lib h = Inl e \<longrightarrow>
      (\<exists>self' ev. getStatus lib self = (Inl e, self', ev))) \<and>
   (init lib_init = (Inr gpu_info, ev_init) \<and> t < length ticks \<and> k < length (gpus gpu_info) \<and>
    nvmlDeviceGetHandleByIndex (ticks ! t) k = Inr h' \<and>
    nvmlDeviceGetMemoryInfo (ticks ! t) h' = Inl e' \<longrightarrow>
      (\<exists>x. main lib_init ticks = (Some x, None))) \<and>
   (lists_ok self \<and> (\<forall>j<nat (cudaDevicesFound self). device_answers lib self j) \<longrightarrow>
      (\<exists>status self' ev. getStatus lib self = (Inr status, self', ev)))"
proof (intro conjI impI)
  assume a: "pynvmlLoaded self \<and> cuda self \<and> lists_ok self \<and> i < nat (cudaDevicesFound self) \<and>
    (\<forall>j<i. device_answers lib self j) \<and> switchVRAM self \<and> gpusVRAM self ! i \<and>
    nvmlDeviceGetHandleByIndex lib i = Inr h \<and> nvmlDeviceGetMemoryInfo lib h = Inl e"
  then have il: "i < length (gpusVRAM self)" by (simp add: lists_ok_def Let_def)
  have "\<And>s1. descends self s1 \<Longrightarrow> \<exists>ev. read_vram lib s1 i h = (Inl e, ev)"
  proof -
    fix s1 assume "descends self s1"
    with a il have "switchVRAM s1" "i < length (gpusVRAM s1)" "gpusVRAM s1 ! i"
      by (simp_all add: descends_def)
    from read_vram_fails(1) [OF this] a show "\<exists>ev. read_vram lib s1 i h = (Inl e, ev)"
      by blast
  qed
  with a show "\<exists>self' ev. getStatus lib self = (Inl e, self', ev)"
    using getStatus_raises [of self i lib h e] by blast
next
  assume b: "init lib_init = (Inr gpu_info, ev_init) \<and> t < length ticks \<and> k < length (gpus gpu_info) \<and>
    nvmlDeviceGetHandleByIndex (ticks ! t) k = Inr h' \<and>
    nvmlDeviceGetMemoryInfo (ticks ! t) h' = Inl e'"
  then have i: "init lib_init = (Inr gpu_info, ev_init)" by simp
  let ?n = "nat (cudaDevicesFound gpu_info)"
  from init_enumerated [OF i]
  have en: "enumerated gpu_info" and nc: "\<not> cuda gpu_info \<longrightarrow> cudaDevicesFound gpu_info = 0"
    by auto
  from en have ix: "map index (gpus gpu_info) = [0..<?n]"
    and vr: "switchVRAM gpu_info" "gpusVRAM gpu_info = replicate ?n True"
    and cl: "cuda gpu_info \<longrightarrow> pynvmlLoaded gpu_info"
    by (simp_all add: enumerated_def Let_def)
  from ix have "length (gpus gpu_info) = ?n"
    by (metis length_map length_upt minus_nat.diff_0)
  with b have kn: "k < ?n" by simp
  with nc cl have on: "pynvmlLoaded gpu_info" "cuda gpu_info" by auto
  obtain r results s' ev where m: "main_loop ticks gpu_info [] = (r, results, s', ev)"
    by (cases "main_loop ticks gpu_info []") auto
  have "r \<noteq> None"
  proof
    assume "r = None"
    with main_loop_results [OF m] b have "length ([]::sample list) + t < length results"
      by simp
    from main_loop_tick [OF m this] obtain s e1 s1 e2 where
      pre: "main_loop (take t ticks) gpu_info [] = (None, take t results, s, e1)" and
      tick: "getStatus (ticks ! t) s = (Inr (results ! t), s1, e2)"
      by auto
    have ds: "descends gpu_info s" using main_loop_descends [OF pre] .
    with on kn have "pynvmlLoaded s" "cuda s" "k < nat (cudaDevicesFound s)"
      by (simp_all add: descends_def)
    from getStatus_entries [OF tick this(1,2)] this(3) obtain sa sb e where
      d': "descends s sa" and
      dv: "device_status (ticks ! t) sa k = (Inr (sample_gpus (results ! t) ! k), sb, e)"
      by blast
    from descends_trans [OF ds d'] vr kn
    have "switchVRAM sa" "k < length (gpusVRAM sa)" "gpusVRAM sa ! k"
      by (simp_all add: descends_def)
    from device_status_polled [OF dv _ this] b show False by simp
  qed
  then obtain x where "r = Some x" by auto
  with i m show "\<exists>x. main lib_init ticks = (Some x, None)"
    by (simp add: main_def)
next
  assume "lists_ok self \<and> (\<forall>j<nat (cudaDevicesFound self). device_answers lib self j)"
  then show "\<exists>status self' ev. getStatus lib self = (Inr status, self', ev)"
    using getStatus_returns by blast
qed

theorem vram_failure_propagates_witness:
  "fst (getStatus fake_vram_fail1 two_gpus) = Inl (NVMLError ''GPU is lost'') \<and>
   main fake_ok [fake_ok, fake_vram_fail1, fake_ok] = (Some (NVMLError ''GPU is lost''), None) \<and>
   nvmlDeviceGetUtilizationRates fake_both_fail 100 = Inl (NVMLError ''Not Supported'') \<and>
   nvmlDeviceGetTemperature fake_both_fail 100 = Inl (OtherException ''boom'') \<and>
   isl (fst (getStatus fake_both_fail two_gpus)) = False"
proof -
  let ?ticks = "[fake_ok, fake_vram_fail1, fake_ok]"
  note inst = vram_failure_propagates [where self = two_gpus and lib_init = fake_ok
      and gpu_info = two_gpus and ev_init = "snd (init fake_ok)" and ticks = ?ticks and t = 1
      and k = 1 and h' = 101 and e' = "NVMLError ''GPU is lost''"]
  have s: "pynvmlLoaded two_gpus" "cuda two_gpus" "lists_ok two_gpus"
    "(1::nat) < nat (cudaDevicesFound two_gpus)" "switchVRAM two_gpus" "gpusVRAM two_gpus ! 1"
    by code_simp+
  have a0: "device_answers fake_vram_fail1 two_gpus 0" by code_simp
  then have a: "\<forall>j<1. device_answers fake_vram_fail1 two_gpus j" by simp
  have h: "nvmlDeviceGetHandleByIndex fake_vram_fail1 1 = Inr 101" by code_simp
  have q: "nvmlDeviceGetMemoryInfo fake_vram_fail1 101 = Inl (NVMLError ''GPU is lost'')"
    by code_simp
  from inst [where lib = fake_vram_fail1 and i = 1 and h = 101 and e = "NVMLError ''GPU is lost''"]
    s a h q
  have c1: "fst (getStatus fake_vram_fail1 two_gpus) = Inl (NVMLError ''GPU is lost'')"
    by auto
  have "fst (init fake_ok) = Inr two_gpus" by code_simp
  then have i: "init fake_ok = (Inr two_gpus, snd (init fake_ok))" by (metis prod.collapse)
  have t: "(1::nat) < length ?ticks" "(1::nat) < length (gpus two_gpus)" by code_simp+
  have h': "nvmlDeviceGetHandleByIndex (?ticks ! 1) 1 = Inr 101" by code_simp
  have q': "nvmlDeviceGetMemoryInfo (?ticks ! 1) 101 = Inl (NVMLError ''GPU is lost'')"
    by code_simp
  from inst [where lib = fake_vram_fail1 and i = 1 and h = 101 and e = "NVMLError ''GPU is lost''"]
    i t h' q'
  have "\<exists>x. main fake_ok ?ticks = (Some x, None)" by blast
  moreover have "fst (main fake_ok ?ticks) = Some (NVMLError ''GPU is lost'')" by code_simp
  ultimately have c2: "main fake_ok ?ticks = (Some (NVMLError ''GPU is lost''), None)" by auto
  have b0: "device_answers fake_both_fail two_gpus 0" "device_answers fake_both_fail two_gpus 1"
    by code_simp+
  have n2: "nat (cudaDevicesFound two_gpus) = 2" by code_simp
  from b0 have b: "\<forall>j<nat (cudaDevicesFound two_gpus). device_answers fake_both_fail two_gpus j"
    unfolding n2 using less_two_cases by auto
  from inst [where lib = fake_both_fail and i = 1 and h = 101 and e = "NVMLError ''GPU is lost''"]
    s(3) b
  have c3: "isl (fst (getStatus fake_both_fail two_gpus)) = False" by auto
  have u: "nvmlDeviceGetUtilizationRates fake_both_fail 100 = Inl (NVMLError ''Not Supported'')"
    by code_simp
  have v: "nvmlDeviceGetTemperature fake_both_fail 100 = Inl (OtherException ''boom'')"
    by code_simp
  from c1 c2 c3 u v show ?thesis by (simp only: simp_thms)
qed

text \<open>
  C3. For utilization and temperature: take a tick that reaches the query of the metric
  for a device (the metric's switch and the device's flag are on, the devices before it
  answer) and in which the library raises on that query. Then the tick leaves the
  switch of the metric off and reports \<open>0\<close> for the device, and in every later tick the
  records have \<open>0\<close> in that field for the device and no query of the metric is sent to
  the library: the later ticks run exactly the same whatever the library would answer
  to that query.
\<close>

theorem failed_metric_stays_off:
  assumes "m = Utilization \<or> m = Temperature"
    and "pynvmlLoaded self" and "cuda self" and "lists_ok self"
    and "i < nat (cudaDevicesFound self)"
    and "switch_of m self" and "flags_of m self ! i"
    and "\<forall>j<i. device_answers lib self j"
    and "m = Temperature \<longrightarrow> device_answers lib self i"
    and "nvmlDeviceGetHandleByIndex lib i = Inr h" and "lib_query lib m h = Inl e"
    and "getStatus lib self = (r, self1, ev1)"
    and "main_loop later self1 acc = (r', results, self2, ev2)"
  shows "\<not> switch_of m self1 \<and>
         (\<forall>status. r = Inr status \<longrightarrow> entry_field m (sample_gpus status ! i) = 0) \<and>
         (\<forall>j. Query m j \<notin> set ev2) \<and>
         (\<exists>new. results = acc @ new \<and>
            (\<forall>st\<in>set new. length (sample_gpus st) = nat (cudaDevicesFound self) \<and>
               entry_field m (sample_gpus st ! i) = 0)) \<and>
         (\<forall>later'. list_all2 (same_but m) later' later \<longrightarrow>
            main_loop later' self1 acc = main_loop later self1 acc)"
proof -
  from assms(1) have nv: "m \<noteq> VRAM" by auto
  have off: "\<not> switch_of m self1"
    using getStatus_turns_off [OF nv assms(2,3,4,5,7,8,9,10,11,12)] .
  have now: "\<forall>status. r = Inr status \<longrightarrow> entry_field m (sample_gpus status ! i) = 0"
  proof (intro allI impI)
    fix status assume "r = Inr status"
    with assms(12) have g: "getStatus lib self = (Inr status, self1, ev1)" by simp
    from getStatus_entries [OF g assms(2,3)] assms(5) obtain s s' ev where
      "device_status lib s i = (Inr (sample_gpus status ! i), s', ev)" by blast
    from device_status_failed_zero [OF nv assms(10,11) this]
    show "entry_field m (sample_gpus status ! i) = 0" .
  qed
  have d: "descends self self1" using getStatus_descends [OF assms(12)] .
  with assms(2,3) have on: "pynvmlLoaded self1" "cuda self1"
    and n: "cudaDevicesFound self1 = cudaDevicesFound self"
    by (simp_all add: descends_def)
  from main_loop_off [OF off assms(13)] obtain new where
    q: "\<forall>j. Query m j \<notin> set ev2" and
    new: "results = acc @ new" and
    z: "\<forall>st\<in>set new. \<forall>g\<in>set (sample_gpus st). entry_field m g = 0"
    by (metis main_loop_off [OF off assms(13)])
  from main_loop_lengths [OF on assms(13)] new n
  have len: "\<forall>st\<in>set new. length (sample_gpus st) = nat (cudaDevicesFound self)"
    by auto
  have "\<forall>st\<in>set new. length (sample_gpus st) = nat (cudaDevicesFound self) \<and>
               entry_field m (sample_gpus st ! i) = 0"
  proof
    fix st assume st: "st \<in> set new"
    with len assms(5) have "i < length (sample_gpus st)" by simp
    then have "sample_gpus st ! i \<in> set (sample_gpus st)" by simp
    with z st len show "length (sample_gpus st) = nat (cudaDevicesFound self) \<and>
               entry_field m (sample_gpus st ! i) = 0" by blast
  qed
  with new have later: "\<exists>new. results = acc @ new \<and>
            (\<forall>st\<in>set new. length (sample_gpus st) = nat (cudaDevicesFound self) \<and>
               entry_field m (sample_gpus st ! i) = 0)" by blast
  have same: "\<forall>later'. list_all2 (same_but m) later' later \<longrightarrow>
            main_loop later' self1 acc = main_loop later self1 acc"
    using main_loop_same [OF _ off] by blast
  from off now q later same show ?thesis by blast
qed

theorem failed_metric_stays_off_witness:
  "lib_query fake_util_fail0 Utilization 100 = Inl (NVMLError ''Unknown Error'') \<and>
   lib_query fake_ok Utilization 100 = Inr 30 \<and>
   switchGPU (fst (snd (getStatus fake_util_fail0 two_gpus))) = False \<and>
   gpu_utilization (sample_gpus (fst (snd (main_loop [fake_ok, fake_ok]
      (fst (snd (getStatus fake_util_fail0 two_gpus))) [])) ! 1) ! 0) = 0 \<and>
   gpu_utilization (sample_gpus (fst (snd (main_loop [fake_ok, fake_ok]
      (fst (snd (getStatus fake_util_fail0 two_gpus))) [])) ! 0) ! 0) = 0 \<and>
   (\<forall>j. Query Utilization j \<notin> set (snd (snd (snd (main_loop [fake_ok, fake_ok]
      (fst (snd (getStatus fake_util_fail0 two_gpus))) []))))) \<and>
   main_loop [fake_other_util, fake_other_util]
      (fst (snd (getStatus fake_util_fail0 two_gpus))) [] =
   main_loop [fake_ok, fake_ok] (fst (snd (getStatus fake_util_fail0 two_gpus))) [] \<and>
   lib_query fake_temp_fail Temperature 101 = Inl (NVMLError ''Not Supported'') \<and>
   lib_query fake_ok Temperature 101 = Inr 60 \<and>
   switchTemperature (fst (snd (getStatus fake_temp_fail two_gpus))) = False \<and>
   gpu_temperature (sample_gpus (fst (snd (main_loop [fake_ok, fake_ok]
      (fst (snd (getStatus fake_temp_fail two_gpus))) [])) ! 1) ! 1) = 0 \<and>
   gpu_temperature (sample_gpus (fst (snd (main_loop [fake_ok, fake_ok]
      (fst (snd (getStatus fake_temp_fail two_gpus))) [])) ! 0) ! 0) = 0 \<and>
   (\<forall>j. Query Temperature j \<notin> set (snd (snd (snd (main_loop [fake_ok, fake_ok]
      (fst (snd (getStatus fake_temp_fail two_gpus))) []))))) \<and>
   main_loop [fake_other_temp, fake_other_temp]
      (fst (snd (getStatus fake_temp_fail two_gpus))) [] =
   main_loop [fake_ok, fake_ok] (fst (snd (getStatus fake_temp_fail two_gpus))) []"
proof -
  let ?gu = "getStatus fake_util_fail0 two_gpus"
  let ?mu = "main_loop [fake_ok, fake_ok] (fst (snd ?gu)) []"
  let ?gt = "getStatus fake_temp_fail two_gpus"
  let ?mt = "main_loop [fake_ok, fake_ok] (fst (snd ?gt)) []"
  have s: "pynvmlLoaded two_gpus" "cuda two_gpus" "lists_ok two_gpus" by code_simp+
  have n: "nat (cudaDevicesFound two_gpus) = 2" by code_simp
  have su: "switch_of Utilization two_gpus" "flags_of Utilization two_gpus ! 0" by code_simp+
  have hu: "nvmlDeviceGetHandleByIndex fake_util_fail0 0 = Inr 100" by code_simp
  have fu: "lib_query fake_util_fail0 Utilization 100 = Inl (NVMLError ''Unknown Error'')"
    by code_simp
  have ku: "lib_query fake_ok Utilization 100 = Inr 30" by code_simp
  have gu: "?gu = (fst ?gu, fst (snd ?gu), snd (snd ?gu))" by simp
  have mu: "?mu = (fst ?mu, fst (snd ?mu), fst (snd (snd ?mu)), snd (snd (snd ?mu)))" by simp
  have lu: "length (fst (snd ?mu)) = 2" by code_simp
  have au: "list_all2 (same_but Utilization) [fake_other_util, fake_other_util] [fake_ok, fake_ok]"
    by (simp add: same_but_def fake_other_util_def)
  from failed_metric_stays_off [where m = Utilization and i = 0, OF _ s _ su _ _ hu fu gu mu] n
  have cu: "\<not> switch_of Utilization (fst (snd ?gu))"
    "\<forall>j. Query Utilization j \<notin> set (snd (snd (snd ?mu)))"
    "\<exists>new. fst (snd ?mu) = [] @ new \<and>
       (\<forall>st\<in>set new. length (sample_gpus st) = nat (cudaDevicesFound two_gpus) \<and>
          entry_field Utilization (sample_gpus st ! 0) = 0)"
    "\<forall>later'. list_all2 (same_but Utilization) later' [fake_ok, fake_ok] \<longrightarrow>
       main_loop later' (fst (snd ?gu)) [] = ?mu"
    by simp_all
  from cu(3) lu have zu: "gpu_utilization (sample_gpus (fst (snd ?mu) ! 1) ! 0) = 0"
    by (metis append_Nil entry_field.simps(1) nth_mem one_less_numeral_iff semiring_norm(76))
  from cu(4) au have eu: "main_loop [fake_other_util, fake_other_util] (fst (snd ?gu)) [] = ?mu"
    by blast
  have st: "switch_of Temperature two_gpus" "flags_of Temperature two_gpus ! 1" by code_simp+
  have a0: "device_answers fake_temp_fail two_gpus 0" by code_simp
  then have at: "\<forall>j<1. device_answers fake_temp_fail two_gpus j" by simp
  have a1: "Temperature = Temperature \<longrightarrow> device_answers fake_temp_fail two_gpus 1"
    by code_simp
  have ht: "nvmlDeviceGetHandleByIndex fake_temp_fail 1 = Inr 101" by code_simp
  have ft: "lib_query fake_temp_fail Temperature 101 = Inl (NVMLError ''Not Supported'')"
    by code_simp
  have kt: "lib_query fake_ok Temperature 101 = Inr 60" by code_simp
  have gt: "?gt = (fst ?gt, fst (snd ?gt), snd (snd ?gt))" by simp
  have mt: "?mt = (fst ?mt, fst (snd ?mt), fst (snd (snd ?mt)), snd (snd (snd ?mt)))" by simp
  have lt: "length (fst (snd ?mt)) = 2" by code_simp
  have i1: "(1::nat) < nat (cudaDevicesFound two_gpus)" by code_simp
  have aT: "list_all2 (same_but Temperature) [fake_other_temp, fake_other_temp] [fake_ok, fake_ok]"
    by (simp add: same_but_def fake_other_temp_def)
  from failed_metric_stays_off [where m = Temperature and i = 1, OF _ s i1 st at a1 ht ft gt mt]
  have ct: "\<not> switch_of Temperature (fst (snd ?gt))"
    "\<forall>j. Query Temperature j \<notin> set (snd (snd (snd ?mt)))"
    "\<exists>new. fst (snd ?mt) = [] @ new \<and>
       (\<forall>st\<in>set new. length (sample_gpus st) = nat (cudaDevicesFound two_gpus) \<and>
          entry_field Temperature (sample_gpus st ! 1) = 0)"
    "\<forall>later'. list_all2 (same_but Temperature) later' [fake_ok, fake_ok] \<longrightarrow>
       main_loop later' (fst (snd ?gt)) [] = ?mt"
    by simp_all
  from ct(3) lt have zt: "gpu_temperature (sample_gpus (fst (snd ?mt) ! 1) ! 1) = 0"
    by (metis append_Nil entry_field.simps(3) nth_mem one_less_numeral_iff semiring_norm(76))
  from ct(4) aT have et: "main_loop [fake_other_temp, fake_other_temp] (fst (snd ?gt)) [] = ?mt"
    by blast
  have vu: "gpu_utilization (sample_gpus (fst (snd ?mu) ! 0) ! 0) = 0" by code_simp
  have vt: "gpu_temperature (sample_gpus (fst (snd ?mt) ! 0) ! 0) = 0" by code_simp
  from cu(1) ct(1) have sw: "switchGPU (fst (snd ?gu)) = False"
    "switchTemperature (fst (snd ?gt)) = False" by simp_all
  from fu ku sw(1) zu vu cu(2) eu ft kt sw(2) zt vt ct(2) et show ?thesis
    by (simp only: simp_thms)
qed

text \<open>
  C4. Every enable-flag is monotone: a call to \<open>getStatus\<close>, and so the whole main
  loop, can change a switch or an entry of the per-device lists only from true to false.
\<close>

theorem enable_flags_monotone:
  "(getStatus lib self = (r, self', ev) \<longrightarrow> flags_only_fall self self') \<and>
   (main_loop ticks self acc = (r', results, self'', ev') \<longrightarrow> flags_only_fall self self'')"
  using getStatus_descends main_loop_descends descends_flags by blast

theorem enable_flags_monotone_witness:
  "fst (snd (getStatus fake_temp_fail two_gpus)) = two_gpus\<lparr>switchTemperature := False\<rparr> \<and>
   flags_only_fall two_gpus (two_gpus\<lparr>switchTemperature := False\<rparr>) \<and>
   fst (snd (snd (main_loop [fake_util_fail0, fake_temp_fail, fake_ok] two_gpus []))) =
     two_gpus\<lparr>switchGPU := False, switchTemperature := False\<rparr> \<and>
   flags_only_fall two_gpus (two_gpus\<lparr>switchGPU := False, switchTemperature := False\<rparr>)"
proof -
  let ?g = "getStatus fake_temp_fail two_gpus"
  let ?m = "main_loop [fake_util_fail0, fake_temp_fail, fake_ok] two_gpus []"
  have g: "fst (snd ?g) = two_gpus\<lparr>switchTemperature := False\<rparr>"
    by code_simp
  have m: "fst (snd (snd ?m)) = two_gpus\<lparr>switchGPU := False, switchTemperature := False\<rparr>"
    by code_simp
  have "flags_only_fall two_gpus (fst (snd ?g)) \<and> flags_only_fall two_gpus (fst (snd (snd ?m)))"
    using enable_flags_monotone [where lib = fake_temp_fail and self = two_gpus
        and r = "fst ?g" and self' = "fst (snd ?g)" and ev = "snd (snd ?g)"
        and ticks = "[fake_util_fail0, fake_temp_fail, fake_ok]" and acc = "[]"
        and r' = "fst ?m" and results = "fst (snd ?m)" and self'' = "fst (snd (snd ?m))"
        and ev' = "snd (snd (snd ?m))"]
    by simp
  with g m show ?thesis by simp
qed

text \<open>
  C5. If the initialization of the library fails (\<open>nvmlInit\<close> raises the library's
  \<open>NVMLError\<close>), the constructor still returns an object, and for that object every
  call of \<open>getStatus\<close> returns exactly \<open>{device_type: "", gpus: []}\<close> and leaves the
  object as it was, so the main loop collects that record at every tick.
\<close>

theorem init_failure_gives_empty_status:
  assumes "nvmlInit lib0 = Inl (NVMLError m)"
  shows "\<exists>gpu_info ev0. init lib0 = (Inr gpu_info, ev0) \<and>
           (\<forall>lib. getStatus lib gpu_info =
              (Inr \<lparr>device_type = '''', sample_gpus = []\<rparr>, gpu_info, [])) \<and>
           (\<forall>ticks. \<exists>ev. main_loop ticks gpu_info [] =
              (None, replicate (length ticks) \<lparr>device_type = '''', sample_gpus = []\<rparr>,
               gpu_info, ev))"
proof -
  let ?s = "GPUInfo_class\<lparr>pynvmlLoaded := False\<rparr>"
  from assms have i: "init lib0 = (Inr ?s,
      [Log Error ''Could not init pynvml. %s'' [AStr m],
       Log Warning ''No GPU with CUDA detected.'' []])"
    by (simp add: init_def)
  have n: "\<not> (pynvmlLoaded ?s \<and> cuda ?s)" by simp
  from getStatus_not_cuda [OF n] main_loop_not_cuda [OF n, of _ "[]"] i show ?thesis
    by (simp add: empty_status_def)
qed

theorem init_failure_gives_empty_status_witness:
  "nvmlInit fake_no_init = Inl (NVMLError ''Driver Not Loaded'') \<and>
   fst (init fake_no_init) = Inr GPUInfo_class \<and>
   getStatus fake_ok GPUInfo_class =
     (Inr \<lparr>device_type = '''', sample_gpus = []\<rparr>, GPUInfo_class, []) \<and>
   fst (snd (main_loop [fake_ok, fake_ok, fake_ok] GPUInfo_class [])) =
     [\<lparr>device_type = '''', sample_gpus = []\<rparr>, \<lparr>device_type = '''', sample_gpus = []\<rparr>,
      \<lparr>device_type = '''', sample_gpus = []\<rparr>]"
proof -
  have a: "nvmlInit fake_no_init = Inl (NVMLError ''Driver Not Loaded'')" by code_simp
  have b: "fst (init fake_no_init) = Inr GPUInfo_class" by code_simp
  from init_failure_gives_empty_status [OF a] obtain gpu_info ev0 where
    i: "init fake_no_init = (Inr gpu_info, ev0)" and
    g: "\<forall>lib. getStatus lib gpu_info =
              (Inr \<lparr>device_type = '''', sample_gpus = []\<rparr>, gpu_info, [])" and
    m: "\<forall>ticks. \<exists>ev. main_loop ticks gpu_info [] =
              (None, replicate (length ticks) \<lparr>device_type = '''', sample_gpus = []\<rparr>,
               gpu_info, ev)"
    by blast
  from i b have e: "gpu_info = GPUInfo_class" by simp
  from m obtain ev where "main_loop [fake_ok, fake_ok, fake_ok] gpu_info [] =
      (None, replicate (length [fake_ok, fake_ok, fake_ok]) \<lparr>device_type = '''', sample_gpus = []\<rparr>,
       gpu_info, ev)" by blast
  then have "fst (snd (main_loop [fake_ok, fake_ok, fake_ok] gpu_info [])) =
      replicate (length [fake_ok, fake_ok, fake_ok]) \<lparr>device_type = '''', sample_gpus = []\<rparr>"
    by (simp only: fst_conv snd_conv)
  then have "fst (snd (main_loop [fake_ok, fake_ok, fake_ok] gpu_info [])) =
      [\<lparr>device_type = '''', sample_gpus = []\<rparr>, \<lparr>device_type = '''', sample_gpus = []\<rparr>,
       \<lparr>device_type = '''', sample_gpus = []\<rparr>]"
    by (simp only: list.size replicate.simps One_nat_def add_0 add_Suc)
  with a b g e show ?thesis by (simp only: simp_thms)
qed

text \<open>
  C6. With the object that the constructor returns, every record that the main loop
  collects has exactly one entry per enumerated device, and the entries stand in the
  order of the device indices, which is the order of enumeration: entry \<open>j\<close> holds the
  memory figures that the library reports in that tick for the device with index \<open>j\<close>.
\<close>

theorem sample_has_entry_per_device:
  assumes "init lib0 = (Inr gpu_info, ev0)"
    and "main_loop ticks gpu_info [] = (r, results, gpu_info', ev)"
  shows "map index (gpus gpu_info) = [0..<length (gpus gpu_info)] \<and>
         length results \<le> length ticks \<and>
         (\<forall>t<length results.
            length (sample_gpus (results ! t)) = length (gpus gpu_info) \<and>
            (\<forall>j<length (gpus gpu_info). \<forall>h u tot.
               nvmlDeviceGetHandleByIndex (ticks ! t) j = Inr h \<and>
               nvmlDeviceGetMemoryInfo (ticks ! t) h = Inr (u, tot) \<longrightarrow>
               vram_used (sample_gpus (results ! t) ! j) = u \<and>
               vram_total (sample_gpus (results ! t) ! j) = tot))"
proof -
  let ?n = "nat (cudaDevicesFound gpu_info)"
  from init_enumerated [OF assms(1)]
  have en: "enumerated gpu_info" and nc: "\<not> cuda gpu_info \<longrightarrow> cudaDevicesFound gpu_info = 0"
    by auto
  from en have ix: "map index (gpus gpu_info) = [0..<?n]"
    and vr: "switchVRAM gpu_info" "gpusVRAM gpu_info = replicate ?n True"
    and cl: "cuda gpu_info \<longrightarrow> pynvmlLoaded gpu_info"
    by (simp_all add: enumerated_def Let_def)
  from ix have len: "length (gpus gpu_info) = ?n"
    by (metis length_map length_upt minus_nat.diff_0)
  from main_loop_results [OF assms(2)] have le: "length results \<le> length ticks" by simp
  have main: "\<forall>t<length results.
            length (sample_gpus (results ! t)) = ?n \<and>
            (\<forall>j<?n. \<forall>h u tot.
               nvmlDeviceGetHandleByIndex (ticks ! t) j = Inr h \<and>
               nvmlDeviceGetMemoryInfo (ticks ! t) h = Inr (u, tot) \<longrightarrow>
               vram_used (sample_gpus (results ! t) ! j) = u \<and>
               vram_total (sample_gpus (results ! t) ! j) = tot)"
  proof (intro allI impI)
    fix t assume "t < length results"
    then have "length ([]::sample list) + t < length results" by simp
    from main_loop_tick [OF assms(2) this] obtain s e1 s1 e2 where
      pre: "main_loop (take t ticks) gpu_info [] = (None, take t results, s, e1)" and
      tick: "getStatus (ticks ! t) s = (Inr (results ! t), s1, e2)"
      by auto
    have ds: "descends gpu_info s" using main_loop_descends [OF pre] .
    show "length (sample_gpus (results ! t)) = ?n \<and>
            (\<forall>j<?n. \<forall>h u tot.
               nvmlDeviceGetHandleByIndex (ticks ! t) j = Inr h \<and>
               nvmlDeviceGetMemoryInfo (ticks ! t) h = Inr (u, tot) \<longrightarrow>
               vram_used (sample_gpus (results ! t) ! j) = u \<and>
               vram_total (sample_gpus (results ! t) ! j) = tot)"
    proof (cases "pynvmlLoaded s \<and> cuda s")
      case False
      with ds have "\<not> cuda gpu_info" using cl by (auto simp: descends_def)
      with nc have "?n = 0" by simp
      moreover from getStatus_not_cuda [OF False, of "ticks ! t"] tick
      have "results ! t = empty_status" by simp
      ultimately show ?thesis by (simp add: empty_status_def)
    next
      case True
      from ds have same: "cudaDevicesFound s = cudaDevicesFound gpu_info"
        by (simp add: descends_def)
      from getStatus_entries [OF tick] True same
      have l: "length (sample_gpus (results ! t)) = ?n" and
        e: "\<forall>k<?n. \<exists>s' s'' e. descends s s' \<and>
              device_status (ticks ! t) s' k = (Inr (sample_gpus (results ! t) ! k), s'', e)"
        by auto
      have "\<forall>j<?n. \<forall>h u tot.
               nvmlDeviceGetHandleByIndex (ticks ! t) j = Inr h \<and>
               nvmlDeviceGetMemoryInfo (ticks ! t) h = Inr (u, tot) \<longrightarrow>
               vram_used (sample_gpus (results ! t) ! j) = u \<and>
               vram_total (sample_gpus (results ! t) ! j) = tot"
      proof (intro allI impI)
        fix j h u tot
        assume j: "j < ?n" and q: "nvmlDeviceGetHandleByIndex (ticks ! t) j = Inr h \<and>
               nvmlDeviceGetMemoryInfo (ticks ! t) h = Inr (u, tot)"
        from e j obtain s' s'' e' where d': "descends s s'" and
          dv: "device_status (ticks ! t) s' j = (Inr (sample_gpus (results ! t) ! j), s'', e')"
          by blast
        from descends_trans [OF ds d'] vr j
        have "switchVRAM s'" "j < length (gpusVRAM s')" "gpusVRAM s' ! j"
          by (simp_all add: descends_def)
        from device_status_vram [OF dv _ _ this] q
        show "vram_used (sample_gpus (results ! t) ! j) = u \<and>
               vram_total (sample_gpus (results ! t) ! j) = tot" by simp
      qed
      with l show ?thesis by simp
    qed
  qed
  show ?thesis unfolding len using ix le main by blast
qed

theorem sample_has_entry_per_device_witness:
  "fst (init fake_ok) = Inr two_gpus \<and> length (gpus two_gpus) = 2 \<and>
   map (\<lambda>s. length (sample_gpus s))
     (fst (snd (main_loop [fake_ok, fake_util_fail0, fake_temp_fail] two_gpus []))) = [2, 2, 2] \<and>
   nvmlDeviceGetHandleByIndex fake_temp_fail 1 = Inr 101 \<and>
   nvmlDeviceGetMemoryInfo fake_temp_fail 101 = Inr (1, 4) \<and>
   vram_used (sample_gpus
     (fst (snd (main_loop [fake_ok, fake_util_fail0, fake_temp_fail] two_gpus [])) ! 2) ! 1) = 1 \<and>
   vram_total (sample_gpus
     (fst (snd (main_loop [fake_ok, fake_util_fail0, fake_temp_fail] two_gpus [])) ! 2) ! 1) = 4"
proof -
  let ?ticks = "[fake_ok, fake_util_fail0, fake_temp_fail]"
  let ?m = "main_loop ?ticks two_gpus []"
  have a: "fst (init fake_ok) = Inr two_gpus" by code_simp
  then have i: "init fake_ok = (Inr two_gpus, snd (init fake_ok))"
    by (metis prod.collapse)
  have m: "?m = (fst ?m, fst (snd ?m), fst (snd (snd ?m)), snd (snd (snd ?m)))" by simp
  have n: "length (gpus two_gpus) = 2" by code_simp
  have l: "length (fst (snd ?m)) = 3" by code_simp
  have lens: "map (\<lambda>s. length (sample_gpus s)) (fst (snd ?m)) = [2, 2, 2]" by code_simp
  have h: "nvmlDeviceGetHandleByIndex fake_temp_fail 1 = Inr 101" by code_simp
  have q: "nvmlDeviceGetMemoryInfo fake_temp_fail 101 = Inr (1, 4)" by code_simp
  from sample_has_entry_per_device [OF i m]
  have "\<forall>t<length (fst (snd ?m)). \<forall>j<length (gpus two_gpus). \<forall>h u tot.
               nvmlDeviceGetHandleByIndex (?ticks ! t) j = Inr h \<and>
               nvmlDeviceGetMemoryInfo (?ticks ! t) h = Inr (u, tot) \<longrightarrow>
               vram_used (sample_gpus (fst (snd ?m) ! t) ! j) = u \<and>
               vram_total (sample_gpus (fst (snd ?m) ! t) ! j) = tot"
    by blast
  with l n have "\<forall>h u tot.
               nvmlDeviceGetHandleByIndex (?ticks ! 2) 1 = Inr h \<and>
               nvmlDeviceGetMemoryInfo (?ticks ! 2) h = Inr (u, tot) \<longrightarrow>
               vram_used (sample_gpus (fst (snd ?m) ! 2) ! 1) = u \<and>
               vram_total (sample_gpus (fst (snd ?m) ! 2) ! 1) = tot"
    by (metis lessI numeral_2_eq_2 numeral_3_eq_3 One_nat_def)
  moreover have "?ticks ! 2 = fake_temp_fail" by simp
  ultimately have "vram_used (sample_gpus (fst (snd ?m) ! 2) ! 1) = 1 \<and>
               vram_total (sample_gpus (fst (snd ?m) ! 2) ! 1) = 4"
    using h q by metis
  with a n lens h q show ?thesis by (simp only: simp_thms)
qed

text \<open>
  C7. When the program ends cleanly after \<open>k\<close> ticks, it writes \<open>status.json\<close> once, as
  UTF-8 with indent 4, and what it writes is the history: \<open>k\<close> records, record \<open>t\<close> being
  the one that tick \<open>t\<close> returned, and the history after \<open>t\<close> ticks being the first \<open>t\<close>
  of them, so the loop only ever appends.
\<close>

theorem clean_shutdown_writes_history:
  assumes "main lib0 ticks = (None, Some f)"
  shows "path f = ''status.json'' \<and> encoding f = ''utf-8'' \<and> indent f = 4 \<and>
         length (payload f) = length ticks \<and>
         (\<exists>gpu_info ev0. init lib0 = (Inr gpu_info, ev0) \<and>
            (\<forall>t<length ticks. \<exists>s e1 s1 e2.
               main_loop (take t ticks) gpu_info [] = (None, take t (payload f), s, e1) \<and>
               getStatus (ticks ! t) s = (Inr (payload f ! t), s1, e2)))"
proof -
  from assms obtain gpu_info ev0 where i: "init lib0 = (Inr gpu_info, ev0)"
    by (auto simp: main_def split: sum.splits prod.splits)
  with assms obtain results s' ev where
    m: "main_loop ticks gpu_info [] = (None, results, s', ev)" and
    f: "f = \<lparr>path = ''status.json'', encoding = ''utf-8'', indent = 4, payload = results\<rparr>"
    by (auto simp: main_def split: option.splits prod.splits)
  from main_loop_results [OF m] have len: "length results = length ticks" by simp
  have "\<forall>t<length ticks. \<exists>s e1 s1 e2.
               main_loop (take t ticks) gpu_info [] = (None, take t results, s, e1) \<and>
               getStatus (ticks ! t) s = (Inr (results ! t), s1, e2)"
  proof (intro allI impI)
    fix t assume "t < length ticks"
    with len have "length ([]::sample list) + t < length results" by simp
    from main_loop_tick [OF m this]
    show "\<exists>s e1 s1 e2.
               main_loop (take t ticks) gpu_info [] = (None, take t results, s, e1) \<and>
               getStatus (ticks ! t) s = (Inr (results ! t), s1, e2)" by simp
  qed
  with i f len show ?thesis by simp
qed

theorem clean_shutdown_writes_history_witness:
  "main fake_ok [fake_ok, fake_util_fail0, fake_ok] =
     (None, Some \<lparr>path = ''status.json'', encoding = ''utf-8'', indent = 4,
                  payload = fst (snd (main_loop [fake_ok, fake_util_fail0, fake_ok] two_gpus []))\<rparr>) \<and>
   length (fst (snd (main_loop [fake_ok, fake_util_fail0, fake_ok] two_gpus []))) = 3 \<and>
   map (\<lambda>s. map gpu_utilization (sample_gpus s))
     (fst (snd (main_loop [fake_ok, fake_util_fail0, fake_ok] two_gpus []))) =
     [[30, 55], [0, 0], [0, 0]]"
proof -
  let ?ticks = "[fake_ok, fake_util_fail0, fake_ok]"
  let ?res = "fst (snd (main_loop ?ticks two_gpus []))"
  let ?f = "\<lparr>path = ''status.json'', encoding = ''utf-8'', indent = 4, payload = ?res\<rparr>"
  have a: "main fake_ok ?ticks = (None, Some ?f)" by code_simp
  have b: "map (\<lambda>s. map gpu_utilization (sample_gpus s)) ?res = [[30, 55], [0, 0], [0, 0]]"
    by code_simp
  from clean_shutdown_writes_history [OF a] have "length (payload ?f) = length ?ticks"
    by blast
  then have "length ?res = 3" by simp
  with a b show ?thesis by (simp only: simp_thms)
qed

text \<open>
  C8. While the devices are enumerated, a \<open>UnicodeDecodeError\<close> from reading a display
  name does not make the constructor fail: when that is the only kind of exception the
  library raises there, every device is recorded under its index, one whose name could
  not be decoded with the placeholder name, one whose name came as bytes with the name
  decoded leniently.
\<close>

theorem undecodable_name_gets_placeholder:
  assumes "nvmlInit lib = Inr u" and "nvmlDeviceGetCount lib = Inr n" and "0 < n"
    and "nvmlSystemGetDriverVersion lib = Inr v"
    and "\<forall>i<nat n. \<exists>h. nvmlDeviceGetHandleByIndex lib i = Inr h \<and>
           ((\<exists>x. nvmlDeviceGetName lib h = Inr x) \<or>
            (\<exists>m. nvmlDeviceGetName lib h = Inl (UnicodeDecodeError m)))"
  shows "\<exists>self ev. init lib = (Inr self, ev) \<and> length (gpus self) = nat n \<and>
           (\<forall>i<nat n. index (gpus self ! i) = i \<and>
              (\<forall>h m. nvmlDeviceGetHandleByIndex lib i = Inr h \<and>
                 nvmlDeviceGetName lib h = Inl (UnicodeDecodeError m) \<longrightarrow>
                 name (gpus self ! i) = ''Unknown GPU (decoding error)'') \<and>
              (\<forall>h b. nvmlDeviceGetHandleByIndex lib i = Inr h \<and>
                 nvmlDeviceGetName lib h = Inr (NameBytes b) \<longrightarrow>
                 name (gpus self ! i) = decode_ignore lib b))"
proof -
  let ?s0 = "GPUInfo_class\<lparr>pynvmlLoaded := True, cudaDevicesFound := n\<rparr>"
  from assms(5) have "\<forall>i\<in>set [0..<nat n]. \<exists>h. nvmlDeviceGetHandleByIndex lib i = Inr h \<and>
             (\<exists>nm e. read_name lib h = (Inr nm, e))"
    using read_name_returns by fastforce
  from enumerate_devices_returns [OF this, of ?s0] obtain s1 e1 where
    en: "enumerate_devices lib [0..<nat n] ?s0 = (Inr s1, e1)" by blast
  with assms(1-4) have i: "init lib = (Inr (s1\<lparr>cuda := True\<rparr>),
      Log Info ''GPU/s:'' [] # e1 @ [Log Info ''NVIDIA Driver: %s'' [AStr v]])"
    by (simp add: init_def)
  let ?self = "s1\<lparr>cuda := True\<rparr>"
  from enumerate_devices_names [OF en] obtain new where
    g: "gpus ?self = new" and len: "length new = nat n" and
    nm: "\<forall>k<nat n. \<exists>h nm e. nvmlDeviceGetHandleByIndex lib k = Inr h \<and>
              read_name lib h = (Inr nm, e) \<and> new ! k = \<lparr>index = k, name = nm\<rparr>"
    by (auto simp: GPUInfo_class_def)
  have "\<forall>i<nat n. index (gpus ?self ! i) = i \<and>
              (\<forall>h m. nvmlDeviceGetHandleByIndex lib i = Inr h \<and>
                 nvmlDeviceGetName lib h = Inl (UnicodeDecodeError m) \<longrightarrow>
                 name (gpus ?self ! i) = ''Unknown GPU (decoding error)'') \<and>
              (\<forall>h b. nvmlDeviceGetHandleByIndex lib i = Inr h \<and>
                 nvmlDeviceGetName lib h = Inr (NameBytes b) \<longrightarrow>
                 name (gpus ?self ! i) = decode_ignore lib b)"
  proof (intro allI impI)
    fix i assume "i < nat n"
    with nm obtain h nm e where h: "nvmlDeviceGetHandleByIndex lib i = Inr h"
      and r: "read_name lib h = (Inr nm, e)" and d: "new ! i = \<lparr>index = i, name = nm\<rparr>"
      by blast
    from h r d show "index (gpus ?self ! i) = i \<and>
              (\<forall>h m. nvmlDeviceGetHandleByIndex lib i = Inr h \<and>
                 nvmlDeviceGetName lib h = Inl (UnicodeDecodeError m) \<longrightarrow>
                 name (gpus ?self ! i) = ''Unknown GPU (decoding error)'') \<and>
              (\<forall>h b. nvmlDeviceGetHandleByIndex lib i = Inr h \<and>
                 nvmlDeviceGetName lib h = Inr (NameBytes b) \<longrightarrow>
                 name (gpus ?self ! i) = decode_ignore lib b)"
      unfolding g by (auto simp: read_name_cases)
  qed
  moreover from g len have "length (gpus ?self) = nat n" by simp
  ultimately show ?thesis using i by blast
qed

theorem undecodable_name_gets_placeholder_witness:
  "nvmlInit fake_bad_name = Inr () \<and> nvmlDeviceGetCount fake_bad_name = Inr 2 \<and>
   nvmlSystemGetDriverVersion fake_bad_name = Inr ''550.0'' \<and>
   nvmlDeviceGetHandleByIndex fake_bad_name 0 = Inr 100 \<and>
   nvmlDeviceGetName fake_bad_name 100 = Inl (UnicodeDecodeError ''invalid start byte'') \<and>
   (\<exists>self ev. init fake_bad_name = (Inr self, ev) \<and>
      gpus self = [\<lparr>index = 0, name = ''Unknown GPU (decoding error)''\<rparr>,
                   \<lparr>index = 1, name = ''GPU''\<rparr>])"
proof -
  have a: "nvmlInit fake_bad_name = Inr ()" by code_simp
  have b: "nvmlDeviceGetCount fake_bad_name = Inr 2" by code_simp
  have c: "nvmlSystemGetDriverVersion fake_bad_name = Inr ''550.0''" by code_simp
  have h0: "nvmlDeviceGetHandleByIndex fake_bad_name 0 = Inr 100" by code_simp
  have n0: "nvmlDeviceGetName fake_bad_name 100 = Inl (UnicodeDecodeError ''invalid start byte'')"
    by code_simp
  have h1: "nvmlDeviceGetHandleByIndex fake_bad_name 1 = Inr 101"
    by (simp add: fake_bad_name_def fake_ok_def)
  have n1: "nvmlDeviceGetName fake_bad_name 101 = Inr (NameBytes [71, 80, 85, 255])"
    by (simp add: fake_bad_name_def fake_ok_def)
  have all: "\<forall>i<nat 2. \<exists>h. nvmlDeviceGetHandleByIndex fake_bad_name i = Inr h \<and>
           ((\<exists>x. nvmlDeviceGetName fake_bad_name h = Inr x) \<or>
            (\<exists>m. nvmlDeviceGetName fake_bad_name h = Inl (UnicodeDecodeError m)))"
  proof (intro allI impI)
    fix i :: nat assume "i < nat 2"
    then have "i = 0 \<or> i = 1" by auto
    with h0 n0 h1 n1 show "\<exists>h. nvmlDeviceGetHandleByIndex fake_bad_name i = Inr h \<and>
           ((\<exists>x. nvmlDeviceGetName fake_bad_name h = Inr x) \<or>
            (\<exists>m. nvmlDeviceGetName fake_bad_name h = Inl (UnicodeDecodeError m)))"
      by auto
  qed
  from undecodable_name_gets_placeholder [OF a b _ c all] obtain self ev where
    i: "init fake_bad_name = (Inr self, ev)" by auto
  have "fst (init fake_bad_name) = Inr (two_gpus\<lparr>gpus :=
      [\<lparr>index = 0, name = ''Unknown GPU (decoding error)''\<rparr>, \<lparr>index = 1, name = ''GPU''\<rparr>]\<rparr>)"
    by code_simp
  with i have "gpus self = [\<lparr>index = 0, name = ''Unknown GPU (decoding error)''\<rparr>,
                   \<lparr>index = 1, name = ''GPU''\<rparr>]" by simp
  with a b c h0 n0 i show ?thesis by simp
qed

text \<open>
  C9. The \<open>device_type\<close> field of every record that \<open>getStatus\<close> returns is the empty
  string, whatever the object and the library are.
\<close>

theorem device_type_always_empty:
  "getStatus lib self = (Inr status, self', ev) \<Longrightarrow> device_type status = ''''"
  by (auto simp: getStatus_def split: if_splits sum.splits prod.splits)

theorem device_type_always_empty_witness:
  "fst (getStatus fake_ok two_gpus) = Inr fake_ok_status \<and> device_type fake_ok_status = ''''"
proof -
  let ?g = "getStatus fake_ok two_gpus"
  have a: "fst ?g = Inr fake_ok_status" by code_simp
  then have "?g = (Inr fake_ok_status, fst (snd ?g), snd (snd ?g))"
    by (metis prod.collapse)
  from device_type_always_empty [OF this] a show ?thesis by simp
qed

text \<open>
  C10. The percentage is computed by a true division with no guard: when the memory
  query reports a total of \<open>0\<close> for a device whose VRAM is polled (and the devices before
  it answer), \<open>getStatus\<close> raises \<open>ZeroDivisionError\<close>; and whenever \<open>getStatus\<close> returns a
  record, the total reported for every polled device was nonzero and the percentage of
  its entry is the quotient of the reported figures.
\<close>

theorem zero_total_raises_division_error:
  "(pynvmlLoaded self \<and> cuda self \<and> lists_ok self \<and> i < nat (cudaDevicesFound self) \<and>
    (\<forall>j<i. device_answers lib self j) \<and> switchVRAM self \<and> gpusVRAM self ! i \<and>
    nvmlDeviceGetHandleByIndex lib i = Inr h \<and> nvmlDeviceGetMemoryInfo lib h = Inr (u, 0) \<longrightarrow>
      (\<exists>self' ev. getStatus lib self = (Inl ZeroDivisionError, self', ev))) \<and>
   (pynvmlLoaded self \<and> cuda self \<and> lists_ok self \<and> i < nat (cudaDevicesFound self) \<and>
    switchVRAM self \<and> gpusVRAM self ! i \<and> nvmlDeviceGetHandleByIndex lib i = Inr h \<and>
    getStatus lib self = (Inr status, self1, ev1) \<longrightarrow>
      (\<exists>used tot. nvmlDeviceGetMemoryInfo lib h = Inr (used, tot) \<and> tot \<noteq> 0 \<and>
         vram_used_percent (sample_gpus status ! i) = PyFloatPercent used tot))"
proof (intro conjI impI)
  assume a: "pynvmlLoaded self \<and> cuda self \<and> lists_ok self \<and> i < nat (cudaDevicesFound self) \<and>
    (\<forall>j<i. device_answers lib self j) \<and> switchVRAM self \<and> gpusVRAM self ! i \<and>
    nvmlDeviceGetHandleByIndex lib i = Inr h \<and> nvmlDeviceGetMemoryInfo lib h = Inr (u, 0)"
  then have il: "i < length (gpusVRAM self)" by (simp add: lists_ok_def Let_def)
  have "\<And>s1. descends self s1 \<Longrightarrow> \<exists>ev. read_vram lib s1 i h = (Inl ZeroDivisionError, ev)"
  proof -
    fix s1 assume "descends self s1"
    with a il have "switchVRAM s1" "i < length (gpusVRAM s1)" "gpusVRAM s1 ! i"
      by (simp_all add: descends_def)
    from read_vram_fails(2) [OF this] a
    show "\<exists>ev. read_vram lib s1 i h = (Inl ZeroDivisionError, ev)" by blast
  qed
  with a show "\<exists>self' ev. getStatus lib self = (Inl ZeroDivisionError, self', ev)"
    using getStatus_raises [of self i lib h ZeroDivisionError] by blast
next
  assume b: "pynvmlLoaded self \<and> cuda self \<and> lists_ok self \<and> i < nat (cudaDevicesFound self) \<and>
    switchVRAM self \<and> gpusVRAM self ! i \<and> nvmlDeviceGetHandleByIndex lib i = Inr h \<and>
    getStatus lib self = (Inr status, self1, ev1)"
  then have il: "i < length (gpusVRAM self)" by (simp add: lists_ok_def Let_def)
  from b have g: "getStatus lib self = (Inr status, self1, ev1)" and on: "pynvmlLoaded self" "cuda self"
    by simp_all
  from getStatus_entries [OF g on] b obtain sa sb e where
    d: "descends self sa" and
    dv: "device_status lib sa i = (Inr (sample_gpus status ! i), sb, e)"
    by blast
  from d b il have "switchVRAM sa" "i < length (gpusVRAM sa)" "gpusVRAM sa ! i"
    by (simp_all add: descends_def)
  from device_status_polled [OF dv _ this] b
  show "\<exists>used tot. nvmlDeviceGetMemoryInfo lib h = Inr (used, tot) \<and> tot \<noteq> 0 \<and>
         vram_used_percent (sample_gpus status ! i) = PyFloatPercent used tot"
    by blast
qed

theorem zero_total_raises_division_error_witness:
  "nvmlDeviceGetMemoryInfo fake_zero_total1 101 = Inr (0, 0) \<and>
   fst (getStatus fake_zero_total1 two_gpus) = Inl ZeroDivisionError \<and>
   nvmlDeviceGetMemoryInfo fake_ok 101 = Inr (1, 4) \<and>
   fst (getStatus fake_ok two_gpus) = Inr fake_ok_status \<and>
   vram_used_percent (sample_gpus fake_ok_status ! 1) = PyFloatPercent 1 4"
proof -
  let ?g = "getStatus fake_ok two_gpus"
  note inst = zero_total_raises_division_error [where self = two_gpus and i = 1 and h = 101]
  have s: "pynvmlLoaded two_gpus" "cuda two_gpus" "lists_ok two_gpus"
    "(1::nat) < nat (cudaDevicesFound two_gpus)" "switchVRAM two_gpus" "gpusVRAM two_gpus ! 1"
    by code_simp+
  have a0: "device_answers fake_zero_total1 two_gpus 0" by code_simp
  then have a: "\<forall>j<1. device_answers fake_zero_total1 two_gpus j" by simp
  have h: "nvmlDeviceGetHandleByIndex fake_zero_total1 1 = Inr 101" by code_simp
  have q: "nvmlDeviceGetMemoryInfo fake_zero_total1 101 = Inr (0, 0)" by code_simp
  from inst [where lib = fake_zero_total1 and u = 0] s a h q
  have "\<exists>self' ev. getStatus fake_zero_total1 two_gpus = (Inl ZeroDivisionError, self', ev)"
    by blast
  then have c1: "fst (getStatus fake_zero_total1 two_gpus) = Inl ZeroDivisionError" by auto
  have h': "nvmlDeviceGetHandleByIndex fake_ok 1 = Inr 101" by code_simp
  have q': "nvmlDeviceGetMemoryInfo fake_ok 101 = Inr (1, 4)" by code_simp
  have r: "fst ?g = Inr fake_ok_status" by code_simp
  then have g: "?g = (Inr fake_ok_status, fst (snd ?g), snd (snd ?g))"
    by (metis prod.collapse)
  from inst [where lib = fake_ok and status = fake_ok_status] s h' g
  have "\<exists>used tot. nvmlDeviceGetMemoryInfo fake_ok 101 = Inr (used, tot) \<and> tot \<noteq> 0 \<and>
         vram_used_percent (sample_gpus fake_ok_status ! 1) = PyFloatPercent used tot"
    by blast
  with q' have c2: "vram_used_percent (sample_gpus fake_ok_status ! 1) = PyFloatPercent 1 4"
    by auto
  from q c1 q' r c2 show ?thesis by (simp only: simp_thms)
qed

end
